theory Spec2Isabelle
  imports Complex_Main "HOL-Library.Word"
begin

section \<open>Errors and outcomes\<close>

text \<open>
  The exceptions the modelled Python raises. A \<open>KeyError\<close> carries the name of the key
  constant whose lookup failed, a \<open>MissingFieldError\<close> the name of the absent field;
  the other errors that carry a string carry the message of the source.
\<close>

datatype error =
    KeyError string
  | IndexError
  | ValueError
  | TypeError string
  | ZeroDivisionError
  | OverflowError
  | MissingFieldError string
  | AssertionError string
  | NotImplementedError string
  | Exception string

text \<open>
  A function that assigns into an object it was given (the dictionary \<open>data\<close> of
  \<open>AtomicDataDict.py\<close>, the key-value store of the writer) has as its outcome the
  content of that object when the call ends, together with how it ended: \<open>Returns d\<close>
  after a normal return, \<open>Raises e d\<close> when an exception \<open>e\<close> left the function with
  the object holding \<open>d\<close>.
\<close>

datatype 'd outcome = Returns 'd | Raises error 'd

fun final :: "'d outcome \<Rightarrow> 'd" where
  "final (Returns d) = d"
| "final (Raises e d) = d"

fun map_outcome :: "('d \<Rightarrow> 'e) \<Rightarrow> 'd outcome \<Rightarrow> 'e outcome" where
  "map_outcome g (Returns d) = Returns (g d)"
| "map_outcome g (Raises e d) = Raises e (g d)"

definition bind :: "error + 'a \<Rightarrow> ('a \<Rightarrow> error + 'b) \<Rightarrow> error + 'b" where
  "bind m k = (case m of Inl e \<Rightarrow> Inl e | Inr x \<Rightarrow> k x)"

section \<open>Arrays of the atomic graph record\<close>

text \<open>
  Real numbers stand for the floating-point entries; integers are unbounded.
  A row of three reals is a \<open>vec3\<close>; a 3x3 matrix is the triple of its rows.
\<close>

type_synonym vec3 = "real \<times> real \<times> real"
type_synonym mat3 = "vec3 \<times> vec3 \<times> vec3"

text \<open>The cell is stored with shape (3,3) or with a leading batch axis, shape (n,3,3).\<close>

datatype cell_array = Cell33 mat3 | CellN33 "mat3 list"

fun vsub :: "vec3 \<Rightarrow> vec3 \<Rightarrow> vec3" where
  "vsub (a1, a2, a3) (b1, b2, b3) = (a1 - b1, a2 - b2, a3 - b3)"

fun vadd :: "vec3 \<Rightarrow> vec3 \<Rightarrow> vec3" where
  "vadd (a1, a2, a3) (b1, b2, b3) = (a1 + b1, a2 + b2, a3 + b3)"

text \<open>\<open>einsum("i,ij->j", s, c)\<close>: the row vector \<open>s\<close> times the matrix \<open>c\<close> of rows.\<close>

fun vecmat :: "vec3 \<Rightarrow> mat3 \<Rightarrow> vec3" where
  "vecmat (s1, s2, s3) ((c11, c12, c13), (c21, c22, c23), (c31, c32, c33)) =
     (s1 * c11 + s2 * c21 + s3 * c31,
      s1 * c12 + s2 * c22 + s3 * c32,
      s1 * c13 + s2 * c23 + s3 * c33)"

fun vec_abs_sum :: "vec3 \<Rightarrow> real" where
  "vec_abs_sum (a1, a2, a3) = \<bar>a1\<bar> + \<bar>a2\<bar> + \<bar>a3\<bar>"

fun mat_abs_sum :: "mat3 \<Rightarrow> real" where
  "mat_abs_sum (r1, r2, r3) = vec_abs_sum r1 + vec_abs_sum r2 + vec_abs_sum r3"

text \<open>\<open>np.sum(np.abs(cell))\<close>.\<close>

fun sum_abs :: "cell_array \<Rightarrow> real" where
  "sum_abs (Cell33 m) = mat_abs_sum m"
| "sum_abs (CellN33 ms) = sum_list (map mat_abs_sum ms)"

text \<open>\<open>cell.reshape(-1, 3, 3)\<close>.\<close>

fun reshape_cell :: "cell_array \<Rightarrow> mat3 list" where
  "reshape_cell (Cell33 m) = [m]"
| "reshape_cell (CellN33 ms) = ms"

text \<open>\<open>cell.squeeze(0)\<close>: the leading axis must have size one.\<close>

fun squeeze0 :: "mat3 list \<Rightarrow> error + mat3" where
  "squeeze0 [m] = Inr m"
| "squeeze0 ms = Inl ValueError"

text \<open>\<open>np.linalg.norm(v, axis=-1)\<close>.\<close>

fun norm3 :: "vec3 \<Rightarrow> real" where
  "norm3 (a1, a2, a3) = sqrt (a1 * a1 + a2 * a2 + a3 * a3)"

definition linalg_norm :: "vec3 list \<Rightarrow> real list" where
  "linalg_norm vs = map norm3 vs"

text \<open>
  Indexing along the first axis: an index \<open>i\<close> with \<open>-n \<le> i < n\<close> is accepted, a
  negative one counts from the end; any other raises IndexError. \<open>item\<close> is the entry
  an accepted index denotes.
\<close>

definition in_range :: "nat \<Rightarrow> int \<Rightarrow> bool" where
  "in_range n i = (- int n \<le> i \<and> i < int n)"

definition item :: "'a list \<Rightarrow> int \<Rightarrow> 'a" where
  "item xs i = xs ! nat (if i < 0 then i + int (length xs) else i)"

definition np_item :: "'a list \<Rightarrow> int \<Rightarrow> error + 'a" where
  "np_item xs i = (if in_range (length xs) i then Inr (item xs i) else Inl IndexError)"

text \<open>\<open>a[idx]\<close> for an integer array \<open>idx\<close>: one entry of \<open>a\<close> per index.\<close>

fun take_rows :: "'a list \<Rightarrow> int list \<Rightarrow> error + 'a list" where
  "take_rows xs [] = Inr []"
| "take_rows xs (i # is) =
     bind (np_item xs i) (\<lambda>x. bind (take_rows xs is) (\<lambda>ys. Inr (x # ys)))"

text \<open>
  A binary operation on two arrays whose leading axes broadcast: equal sizes pair up,
  a size of one is repeated, any other pair of sizes raises ValueError.
\<close>

definition broadcast2 :: "('a \<Rightarrow> 'b \<Rightarrow> 'c) \<Rightarrow> 'a list \<Rightarrow> 'b list \<Rightarrow> error + 'c list" where
  "broadcast2 f xs ys =
     (if length xs = length ys then Inr (map2 f xs ys)
      else if length xs = 1 then Inr (map (f (hd xs)) ys)
      else if length ys = 1 then Inr (map (\<lambda>x. f x (hd ys)) xs)
      else Inl ValueError)"

text \<open>\<open>np.zeros(n, dtype=np.int64)\<close>.\<close>

definition np_zeros :: "nat \<Rightarrow> int list" where
  "np_zeros n = replicate n 0"

text \<open>
  \<open>np.arange(start, stop, step)\<close> on integers: the length is the quotient
  \<open>(stop - start) / step\<close> rounded up, and not below zero; a zero step raises
  when that quotient is taken.
\<close>

definition np_arange :: "int \<Rightarrow> int \<Rightarrow> int \<Rightarrow> error + int list" where
  "np_arange start stop step =
     (if step = 0 then Inl ZeroDivisionError
      else Inr (map (\<lambda>k. start + int k * step)
                  [0 ..< nat (- ((start - stop) div step))]))"

section \<open>The atomic graph record\<close>

text \<open>
  Modelled from the spec: the key registry (module \<open>_keys\<close>) is not among the sources.
  The spec describes it as a closed vocabulary in which each concept has exactly one
  name, so each key is a field of its own, named after its constant; a field is
  \<open>None\<close> when the key is not in the dictionary. The arrays have the shapes of the
  spec's data model: positions (n_atom,3), an index (2,n_edge) held as its columns
  (source, target), a cell shift (n_edge,3), batch (n_atom,), vectors (n_edge,3),
  lengths (n_edge,). Further keys of a dictionary are the record's extension.
\<close>

record AtomicDataDict =
  POSITIONS_KEY :: "vec3 list option"
  CELL_KEY :: "cell_array option"
  BATCH_KEY :: "int list option"
  BATCH_PTR_KEY :: "int list option"
  EDGE_INDEX_KEY :: "(int \<times> int) list option"
  EDGE_CELL_SHIFT_KEY :: "vec3 list option"
  EDGE_VECTORS_KEY :: "vec3 list option"
  EDGE_LENGTH_KEY :: "real list option"
  ENV_INDEX_KEY :: "(int \<times> int) list option"
  ENV_CELL_SHIFT_KEY :: "vec3 list option"
  ENV_VECTORS_KEY :: "vec3 list option"
  ENV_LENGTH_KEY :: "real list option"
  ONSITENV_INDEX_KEY :: "(int \<times> int) list option"
  ONSITENV_CELL_SHIFT_KEY :: "vec3 list option"
  ONSITENV_VECTORS_KEY :: "vec3 list option"
  ONSITENV_LENGTH_KEY :: "real list option"

text \<open>\<open>data[key]\<close>: KeyError when the key is absent.\<close>

definition getitem :: "string \<Rightarrow> 'a option \<Rightarrow> error + 'a" where
  "getitem name field = (case field of None \<Rightarrow> Inl (KeyError name) | Some a \<Rightarrow> Inr a)"

section \<open>Displacement vectors\<close>

text \<open>
  Lines 54 to 80 of \<open>with_edge_vectors\<close>, which \<open>with_env_vectors\<close> (108 to 134) and
  \<open>with_onsitenv_vectors\<close> (161 to 187) repeat with their own index and cell shift
  keys: the value of the local \<open>edge_vec\<close> before it is stored. Nothing is assigned
  to \<open>data\<close> in these lines, so an exception here leaves \<open>data\<close> as it was.
  \<open>index\<close> and \<open>shift\<close> are the fields of the relation, \<open>index_key\<close> and
  \<open>shift_key\<close> their names.
\<close>

definition displacement ::
  "string \<Rightarrow> string \<Rightarrow> (int \<times> int) list option \<Rightarrow> vec3 list option \<Rightarrow>
   'm AtomicDataDict_scheme \<Rightarrow> error + vec3 list" where
  "displacement index_key shift_key index shift data =
     bind (getitem ''POSITIONS_KEY'' (POSITIONS_KEY data)) (\<lambda>pos.
     bind (getitem index_key index) (\<lambda>edge_index.
     bind (take_rows pos (map snd edge_index)) (\<lambda>pos_target.
     bind (take_rows pos (map fst edge_index)) (\<lambda>pos_source.
     let edge_vec = map2 vsub pos_target pos_source in
     (case CELL_KEY data of
        None \<Rightarrow> Inr edge_vec
      | Some c \<Rightarrow>
          if sum_abs c > 1 / 10 ^ 10 then
            let cell = reshape_cell c in
            bind (getitem shift_key shift) (\<lambda>edge_cell_shift.
            if length cell > 1 then
              bind (getitem ''BATCH_KEY'' (BATCH_KEY data)) (\<lambda>batch.
              bind (take_rows batch (map fst edge_index)) (\<lambda>b.
              bind (take_rows cell b) (\<lambda>cells.
              bind (broadcast2 vecmat edge_cell_shift cells) (\<lambda>corr.
              broadcast2 vadd edge_vec corr))))
            else
              bind (squeeze0 cell) (\<lambda>cell0.
              broadcast2 vadd edge_vec (map (\<lambda>s. vecmat s cell0) edge_cell_shift)))
          else Inr edge_vec)))))"

definition with_edge_vectors ::
  "bool \<Rightarrow> 'm AtomicDataDict_scheme \<Rightarrow> 'm AtomicDataDict_scheme outcome" where
  "with_edge_vectors with_lengths data =
     (case EDGE_VECTORS_KEY data of
        Some vectors \<Rightarrow>
          if with_lengths \<and> EDGE_LENGTH_KEY data = None
          then Returns (data\<lparr>EDGE_LENGTH_KEY := Some (linalg_norm vectors)\<rparr>)
          else Returns data
      | None \<Rightarrow>
          (case displacement ''EDGE_INDEX_KEY'' ''EDGE_CELL_SHIFT_KEY''
                  (EDGE_INDEX_KEY data) (EDGE_CELL_SHIFT_KEY data) data of
             Inl e \<Rightarrow> Raises e data
           | Inr edge_vec \<Rightarrow>
               let data1 = data\<lparr>EDGE_VECTORS_KEY := Some edge_vec\<rparr> in
               if with_lengths
               then Returns (data1\<lparr>EDGE_LENGTH_KEY := Some (linalg_norm edge_vec)\<rparr>)
               else Returns data1))"

text \<open>
  In the two functions below the freshly built branch calls
  \<open>np.linalg.norm(env_vec, dim=-1)\<close> (lines 137 and 190). \<open>norm\<close> has no parameter
  \<open>dim\<close>, so the call raises TypeError; the vectors were stored the line before.
\<close>

definition with_env_vectors ::
  "bool \<Rightarrow> 'm AtomicDataDict_scheme \<Rightarrow> 'm AtomicDataDict_scheme outcome" where
  "with_env_vectors with_lengths data =
     (case ENV_VECTORS_KEY data of
        Some vectors \<Rightarrow>
          if with_lengths \<and> ENV_LENGTH_KEY data = None
          then Returns (data\<lparr>ENV_LENGTH_KEY := Some (linalg_norm vectors)\<rparr>)
          else Returns data
      | None \<Rightarrow>
          (case displacement ''ENV_INDEX_KEY'' ''ENV_CELL_SHIFT_KEY''
                  (ENV_INDEX_KEY data) (ENV_CELL_SHIFT_KEY data) data of
             Inl e \<Rightarrow> Raises e data
           | Inr env_vec \<Rightarrow>
               let data1 = data\<lparr>ENV_VECTORS_KEY := Some env_vec\<rparr> in
               if with_lengths
               then Raises (TypeError ''norm() got an unexpected keyword argument dim'') data1
               else Returns data1))"

definition with_onsitenv_vectors ::
  "bool \<Rightarrow> 'm AtomicDataDict_scheme \<Rightarrow> 'm AtomicDataDict_scheme outcome" where
  "with_onsitenv_vectors with_lengths data =
     (case ONSITENV_VECTORS_KEY data of
        Some vectors \<Rightarrow>
          if with_lengths \<and> ONSITENV_LENGTH_KEY data = None
          then Returns (data\<lparr>ONSITENV_LENGTH_KEY := Some (linalg_norm vectors)\<rparr>)
          else Returns data
      | None \<Rightarrow>
          (case displacement ''ONSITENV_INDEX_KEY'' ''ONSITENV_CELL_SHIFT_KEY''
                  (ONSITENV_INDEX_KEY data) (ONSITENV_CELL_SHIFT_KEY data) data of
             Inl e \<Rightarrow> Raises e data
           | Inr env_vec \<Rightarrow>
               let data1 = data\<lparr>ONSITENV_VECTORS_KEY := Some env_vec\<rparr> in
               if with_lengths
               then Raises (TypeError ''norm() got an unexpected keyword argument dim'') data1
               else Returns data1))"

section \<open>Batch defaulting\<close>

text \<open>
  \<open>data[BATCH_KEY]\<close> is assigned (line 205) before \<open>np.arange\<close> is evaluated
  (line 207), with \<open>step = len(pos)\<close>.
\<close>

definition with_batch :: "'m AtomicDataDict_scheme \<Rightarrow> 'm AtomicDataDict_scheme outcome" where
  "with_batch data =
     (case BATCH_KEY data of
        Some b \<Rightarrow> Returns data
      | None \<Rightarrow>
          (case getitem ''POSITIONS_KEY'' (POSITIONS_KEY data) of
             Inl e \<Rightarrow> Raises e data
           | Inr pos \<Rightarrow>
               let batch = np_zeros (length pos);
                   data1 = data\<lparr>BATCH_KEY := Some batch\<rparr> in
               (case np_arange 0 (int (length pos) + 1) (int (length pos)) of
                  Inl e \<Rightarrow> Raises e data1
                | Inr ptr \<Rightarrow> Returns (data1\<lparr>BATCH_PTR_KEY := Some ptr\<rparr>))))"

section \<open>The caller's dictionary\<close>

text \<open>
  The dictionaries live in a heap \<open>h\<close>, and a caller holds a reference. A call of
  one of the four operations on the dictionary at \<open>r\<close> leaves the content the
  operation ended with at \<open>r\<close>, and its value is the reference it was given: each of
  them ends in \<open>return data\<close>.
\<close>

type_synonym ref = nat

datatype 'a result = Return 'a | Raise error

definition call ::
  "('d \<Rightarrow> 'd outcome) \<Rightarrow> ref \<Rightarrow> (ref \<Rightarrow> 'd) \<Rightarrow> ref result \<times> (ref \<Rightarrow> 'd)" where
  "call f r h =
     (case f (h r) of
        Returns d \<Rightarrow> (Return r, h(r := d))
      | Raises e d \<Rightarrow> (Raise e, h(r := d)))"

section \<open>Arrays and records of the parser\<close>

text \<open>
  An array of \<open>parse.py\<close> is its shape, its dtype and its entries in row-major order
  (complex numbers stand for the entries of every dtype).
\<close>

datatype dtype = Int32 | Int64 | Float32 | Float64 | Complex64 | Complex128 | Bool8

record ndarray =
  shape :: "nat list"
  dtype :: dtype
  flat :: "complex list"

text \<open>\<open>a.shape[0]\<close>: a tuple index out of range for an array without axes.\<close>

definition shape0 :: "ndarray \<Rightarrow> error + nat" where
  "shape0 a = (case shape a of [] \<Rightarrow> Inl IndexError | n # rest \<Rightarrow> Inr n)"

text \<open>\<open>a[i]\<close> for \<open>i \<ge> 0\<close>: the \<open>i\<close>-th sub-array along the first axis.\<close>

definition getitem0 :: "ndarray \<Rightarrow> nat \<Rightarrow> error + ndarray" where
  "getitem0 a i =
     (case shape a of
        [] \<Rightarrow> Inl IndexError
      | n # rest \<Rightarrow>
          if i < n
          then Inr \<lparr>shape = rest, dtype = dtype a,
                    flat = take (prod_list rest) (drop (i * prod_list rest) (flat a))\<rparr>
          else Inl IndexError)"

text \<open>\<open>xs[i]\<close> for a Python list and \<open>i \<ge> 0\<close>.\<close>

definition list_item :: "'a list \<Rightarrow> nat \<Rightarrow> error + 'a" where
  "list_item xs i = (if i < length xs then Inr (xs ! i) else Inl IndexError)"

text \<open>
  Modelled from the spec: the key registry (module \<open>_keys\<close>) is not among the sources.
  As for the graph record, each key of the closed vocabulary is a field, \<open>None\<close> when
  the key is absent: the structure record holds atomic numbers, positions, cell and
  periodic flags, the eigenvalue record eigenvalues and k-points. A block record of one
  frame maps the composite key \<open>i_j_Rx_Ry_Rz\<close> to a matrix.
\<close>

record structure_record =
  s_atomic_numbers :: "ndarray option"
  s_positions :: "ndarray option"
  s_cell :: "ndarray option"
  s_pbc :: "ndarray option"

record eigstatus =
  e_eigenvalues :: "ndarray option"
  e_kpoints :: "ndarray option"

type_synonym blocks = "(string \<times> ndarray) list"

text \<open>
  The three queries every backend implements (abstract methods of \<open>Parser\<close>); a query
  may raise. \<open>get_blocks\<close> answers Hamiltonian, overlap and density matrix, each
  \<open>None\<close> when not requested.
\<close>

record backend =
  get_structure :: "int \<Rightarrow> error + structure_record"
  get_eigenvalue :: "int \<Rightarrow> int \<Rightarrow> error + eigstatus"
  get_blocks ::
    "int \<Rightarrow> bool \<Rightarrow> bool \<Rightarrow> bool \<Rightarrow>
     error + (blocks list option \<times> blocks list option \<times> blocks list option)"

text \<open>
  Modelled from the spec: \<open>j_must_have\<close> (module \<open>dftio.utils\<close>) is not among the
  sources. By the spec a required key absent from a record is a MissingFieldError
  naming the field; a present key yields its value.
\<close>

definition j_must_have :: "string \<Rightarrow> 'a option \<Rightarrow> error + 'a" where
  "j_must_have name field =
     (case field of None \<Rightarrow> Inl (MissingFieldError name) | Some a \<Rightarrow> Inr a)"

section \<open>Structure validation\<close>

text \<open>
  \<open>Parser.check_structure\<close>: the structure is the argument, or the answer of
  \<open>get_structure\<close> when the argument is \<open>None\<close>; the assertions follow in the order of
  the source, each with its message. \<open>np.bool8\<close> is numpy's boolean dtype.
\<close>

definition check_structure :: "backend \<Rightarrow> int \<Rightarrow> structure_record option \<Rightarrow> error + bool" where
  "check_structure self idx structure_arg =
     bind (case structure_arg of None \<Rightarrow> get_structure self idx | Some s \<Rightarrow> Inr s)
       (\<lambda>structure.
     bind (j_must_have ''ATOMIC_NUMBERS_KEY'' (s_atomic_numbers structure)) (\<lambda>atomic_number.
     bind (j_must_have ''POSITIONS_KEY'' (s_positions structure)) (\<lambda>pos.
     bind (j_must_have ''CELL_KEY'' (s_cell structure)) (\<lambda>cell.
     bind (j_must_have ''PBC_KEY'' (s_pbc structure)) (\<lambda>pbc.
     if \<not> (length (shape pos) = 3 \<and> shape pos ! 2 = 3)
     then Inl (AssertionError ''The shape of structure should be (n_frame, natom, 3)'')
     else
       let n_frame = shape pos ! 0; natom = shape pos ! 1 in
       if \<not> (length (shape cell) = 3 \<and> shape cell ! 0 = n_frame \<and>
              shape cell ! 1 = 3 \<and> shape cell ! 2 = 3)
       then Inl (AssertionError ''The shape of cell should be (n_frame, 3, 3)'')
       else if \<not> (length (shape atomic_number) = 1 \<and> shape atomic_number ! 0 = natom)
       then Inl (AssertionError ''The shape of atomic_number should be (natom,)'')
       else if \<not> (length (shape pbc) = 1 \<and> shape pbc ! 0 = 3)
       then Inl (AssertionError ''The shape of pbc should be (3)'')
       else if dtype atomic_number \<noteq> Int32
       then Inl (AssertionError ''The dtype of atomic_number should be int'')
       else if dtype cell \<noteq> Float32
       then Inl (AssertionError ''The dtype of cell should be float'')
       else if dtype pos \<noteq> Float32
       then Inl (AssertionError ''The dtype of pos should be float'')
       else if dtype pbc \<noteq> Bool8
       then Inl (AssertionError ''The dtype of pbc should be bool'')
       else Inr True)))))"

text \<open>
  The invariants of a structure record in the words of the spec: positions of rank 3
  with trailing dimension 3; cell of shape (n_frame,3,3) with the frame count of the
  positions; atomic numbers of rank 1 and the length of the atom count; periodic flags
  of rank 1 and length 3; atomic numbers 32-bit integers, positions and cell 32-bit
  floats, periodic flags boolean.
\<close>

definition valid_structure :: "structure_record \<Rightarrow> bool" where
  "valid_structure s =
     (case (s_atomic_numbers s, s_positions s, s_cell s, s_pbc s) of
        (Some a, Some p, Some c, Some b) \<Rightarrow>
          length (shape p) = 3 \<and> shape p ! 2 = 3 \<and>
          shape c = [shape p ! 0, 3, 3] \<and>
          shape a = [shape p ! 1] \<and>
          shape b = [3] \<and>
          dtype a = Int32 \<and> dtype p = Float32 \<and> dtype c = Float32 \<and> dtype b = Bool8
      | _ \<Rightarrow> False)"

section \<open>The key-value store writer\<close>

text \<open>
  The per-frame mapping \<open>data_dict\<close> of \<open>write_lmdb\<close> (lines 307 to 325), one field per
  key; the optional keys are \<open>None\<close> when not assigned.
\<close>

record data_dict =
  d_atomic_numbers :: ndarray
  d_cell :: ndarray
  d_positions :: ndarray
  d_pbc :: ndarray
  d_eigenvalues :: "ndarray option"
  d_kpoints :: "ndarray option"
  d_hamiltonian :: "blocks option"
  d_overlap :: "blocks option"
  d_density_matrix :: "blocks option"
  d_idx :: int
  d_nf :: nat

text \<open>
  \<open>pickle.dumps\<close> and \<open>pickle.loads\<close>: the serialized form is a value of its own,
  from which the mapping is read back.
\<close>

datatype pickled = Pickled data_dict

definition pickle_dumps :: "data_dict \<Rightarrow> pickled" where
  "pickle_dumps d = Pickled d"

fun pickle_loads :: "pickled \<Rightarrow> data_dict" where
  "pickle_loads (Pickled d) = d"

text \<open>
  The store is the list of its entries, one per key. \<open>entries\<close> is
  \<open>lmdb_env.stat()["entries"]\<close>; \<open>put\<close> is \<open>txn.put\<close> committed at the end of its
  transaction: it replaces the value of a key that exists and adds the entry otherwise.
\<close>

type_synonym byte = "8 word"
type_synonym store = "(byte list \<times> pickled) list"

definition entries :: "store \<Rightarrow> nat" where
  "entries env = length env"

fun put :: "byte list \<Rightarrow> pickled \<Rightarrow> store \<Rightarrow> store" where
  "put k v [] = [(k, v)]"
| "put k v ((k', v') # env) = (if k = k' then (k, v) # env else (k', v') # put k v env)"

text \<open>
  \<open>n.to_bytes(length=4, byteorder='big')\<close>: the four bytes of \<open>n\<close>, most significant
  first; OverflowError when \<open>n\<close> does not fit.
\<close>

definition big_endian4 :: "nat \<Rightarrow> byte list" where
  "big_endian4 n =
     [of_nat (n div 2 ^ 24), of_nat (n div 2 ^ 16), of_nat (n div 2 ^ 8), of_nat n]"

definition to_bytes4 :: "nat \<Rightarrow> error + byte list" where
  "to_bytes4 n = (if n < 2 ^ 32 then Inr (big_endian4 n) else Inl OverflowError)"

text \<open>\<open>ham[nf]\<close> for the answer of \<open>get_blocks\<close>: \<open>None\<close> is not subscriptable.\<close>

definition blocks_item :: "blocks list option \<Rightarrow> nat \<Rightarrow> error + blocks" where
  "blocks_item b nf =
     (case b of
        None \<Rightarrow> Inl (TypeError ''NoneType object is not subscriptable'')
      | Some l \<Rightarrow> list_item l nf)"

text \<open>
  The body of the loop up to \<open>pickle.dumps\<close> (lines 307 to 325): the mapping of frame
  \<open>nf\<close>. \<open>eigstatus\<close>, \<open>ham\<close>, \<open>ovp\<close> and \<open>dm\<close> are read only under their flags.
\<close>

definition frame_dict ::
  "int \<Rightarrow> structure_record \<Rightarrow> bool \<Rightarrow> eigstatus \<Rightarrow> bool \<Rightarrow> bool \<Rightarrow> bool \<Rightarrow>
   blocks list option \<Rightarrow> blocks list option \<Rightarrow> blocks list option \<Rightarrow> nat \<Rightarrow>
   error + data_dict" where
  "frame_dict idx structure eigenvalue eigstatus hamiltonian overlap density_matrix
       ham ovp dm nf =
     bind (getitem ''ATOMIC_NUMBERS_KEY'' (s_atomic_numbers structure)) (\<lambda>numbers.
     bind (bind (getitem ''CELL_KEY'' (s_cell structure)) (\<lambda>a. getitem0 a nf)) (\<lambda>cell_nf.
     bind (bind (getitem ''POSITIONS_KEY'' (s_positions structure)) (\<lambda>a. getitem0 a nf))
       (\<lambda>pos_nf.
     bind (getitem ''PBC_KEY'' (s_pbc structure)) (\<lambda>pbc.
     bind (if eigenvalue
           then bind (bind (getitem ''ENERGY_EIGENVALUE_KEY'' (e_eigenvalues eigstatus))
                        (\<lambda>a. getitem0 a nf)) (\<lambda>eig_nf.
                bind (getitem ''KPOINT_KEY'' (e_kpoints eigstatus)) (\<lambda>kpt.
                Inr (Some eig_nf, Some kpt)))
           else Inr (None, None)) (\<lambda>(eig, kpt).
     bind (if hamiltonian then bind (blocks_item ham nf) (\<lambda>h. Inr (Some h)) else Inr None)
       (\<lambda>h.
     bind (if overlap then bind (blocks_item ovp nf) (\<lambda>s. Inr (Some s)) else Inr None)
       (\<lambda>s.
     bind (if density_matrix then bind (blocks_item dm nf) (\<lambda>m. Inr (Some m)) else Inr None)
       (\<lambda>m.
     Inr \<lparr>d_atomic_numbers = numbers, d_cell = cell_nf, d_positions = pos_nf, d_pbc = pbc,
          d_eigenvalues = eig, d_kpoints = kpt,
          d_hamiltonian = h, d_overlap = s, d_density_matrix = m,
          d_idx = idx, d_nf = nf\<rparr>))))))))"

text \<open>
  The loop over \<open>range(n_frames)\<close>: each frame is appended in a transaction of its own
  under the key made of the entry count read in that transaction, so an exception
  leaves the frames written before it in the store.
\<close>

fun write_frames :: "(nat \<Rightarrow> error + data_dict) \<Rightarrow> nat list \<Rightarrow> store \<Rightarrow> store outcome" where
  "write_frames mk [] env = Returns env"
| "write_frames mk (nf # nfs) env =
     (case mk nf of
        Inl e \<Rightarrow> Raises e env
      | Inr data_dict \<Rightarrow>
          (case to_bytes4 (entries env) of
             Inl e \<Rightarrow> Raises e env
           | Inr key \<Rightarrow> write_frames mk nfs (put key (pickle_dumps data_dict) env)))"

text \<open>
  \<open>Parser.write_lmdb\<close>. \<open>env\<close> is the content of the environment the function opens
  below \<open>outroot\<close>; creating the directory and opening and closing the environment are
  not modelled.
\<close>

definition write_lmdb ::
  "backend \<Rightarrow> int \<Rightarrow> bool \<Rightarrow> bool \<Rightarrow> bool \<Rightarrow> bool \<Rightarrow> int \<Rightarrow> store \<Rightarrow> store outcome" where
  "write_lmdb self idx eigenvalue hamiltonian overlap density_matrix band_index_min env =
     (case get_structure self idx of
        Inl e \<Rightarrow> Raises e env
      | Inr structure \<Rightarrow>
     (case (if hamiltonian \<or> overlap \<or> density_matrix
            then get_blocks self idx hamiltonian overlap density_matrix
            else Inr (None, None, None)) of
        Inl e \<Rightarrow> Raises e env
      | Inr (ham, ovp, dm) \<Rightarrow>
     (case (if eigenvalue then get_eigenvalue self idx band_index_min
            else Inr \<lparr>e_eigenvalues = None, e_kpoints = None\<rparr>) of
        Inl e \<Rightarrow> Raises e env
      | Inr eigstatus \<Rightarrow>
     (case bind (getitem ''POSITIONS_KEY'' (s_positions structure)) shape0 of
        Inl e \<Rightarrow> Raises e env
      | Inr n_frames \<Rightarrow>
          write_frames
            (frame_dict idx structure eigenvalue eigstatus hamiltonian overlap density_matrix
               ham ovp dm)
            [0 ..< n_frames] env))))"

section \<open>Dispatch by format and by backend name\<close>

text \<open>
  What the writers act on: the key-value environment and the files below \<open>outroot\<close>.
\<close>

record 'f world =
  lmdb_env :: store
  files :: 'f

text \<open>\<open>Parser.write_hdf5\<close> is \<open>pass\<close>.\<close>

definition write_hdf5 :: "'f world \<Rightarrow> 'f world outcome" where
  "write_hdf5 w = Returns w"

text \<open>
  \<open>Parser.write\<close>. \<open>write_dat\<close>, which writes files only, is a parameter: it receives
  the arguments the source passes to it.
\<close>

definition "write" ::
  "(int \<Rightarrow> string \<Rightarrow> bool \<Rightarrow> bool \<Rightarrow> bool \<Rightarrow> bool \<Rightarrow> int \<Rightarrow> 'f world \<Rightarrow> 'f world outcome) \<Rightarrow>
   backend \<Rightarrow> int \<Rightarrow> string \<Rightarrow> bool \<Rightarrow> bool \<Rightarrow> bool \<Rightarrow> bool \<Rightarrow> int \<Rightarrow>
   'f world \<Rightarrow> 'f world outcome" where
  "write write_dat self idx format eigenvalue hamiltonian overlap density_matrix
       band_index_min w =
     (if format = ''hdf5'' then write_hdf5 w
      else if format \<in> set [''dat'', ''ase'']
      then write_dat idx format eigenvalue hamiltonian overlap density_matrix band_index_min w
      else if format = ''lmdb''
      then map_outcome (\<lambda>env. w\<lparr>lmdb_env := env\<rparr>)
             (write_lmdb self idx eigenvalue hamiltonian overlap density_matrix band_index_min
                (lmdb_env w))
      else Raises (NotImplementedError (''Format: '' @ format @ '' is not implemented!'')) w)"

text \<open>
  Modelled from the spec: the class \<open>Register\<close> (module \<open>dftio.register\<close>) is not among
  the sources. By the spec it is a lookup from a name to a constructor; a constructor
  takes the keyword arguments, acts on the world \<open>'w\<close> and yields a parser or raises.
  \<open>ParserRegister.__new__\<close> looks the mode up.
\<close>

type_synonym ('k, 'w, 'p) register = "string \<rightharpoonup> ('k \<Rightarrow> 'w \<Rightarrow> (error + 'p) \<times> 'w)"

definition ParserRegister_new ::
  "('k, 'w, 'p) register \<Rightarrow> string \<Rightarrow> 'k \<Rightarrow> 'w \<Rightarrow> (error + 'p) \<times> 'w" where
  "ParserRegister_new register mode kwargs w =
     (case register mode of
        Some constructor \<Rightarrow> constructor kwargs w
      | None \<Rightarrow> (Inl (Exception (''Descriptor mode: '' @ mode @ '' is not registered!'')), w))"

section \<open>Reference values and example records of the graph\<close>

definition empty_graph :: AtomicDataDict where
  "empty_graph = \<lparr>POSITIONS_KEY = None, CELL_KEY = None, BATCH_KEY = None, BATCH_PTR_KEY = None,
     EDGE_INDEX_KEY = None, EDGE_CELL_SHIFT_KEY = None, EDGE_VECTORS_KEY = None, EDGE_LENGTH_KEY = None,
     ENV_INDEX_KEY = None, ENV_CELL_SHIFT_KEY = None, ENV_VECTORS_KEY = None, ENV_LENGTH_KEY = None,
     ONSITENV_INDEX_KEY = None, ONSITENV_CELL_SHIFT_KEY = None, ONSITENV_VECTORS_KEY = None,
     ONSITENV_LENGTH_KEY = None\<rparr>"

definition valid_index :: "nat \<Rightarrow> (int \<times> int) list \<Rightarrow> bool" where
  "valid_index n idx = (\<forall>(s, t)\<in>set idx. in_range n s \<and> in_range n t)"

definition plain_difference :: "vec3 list \<Rightarrow> (int \<times> int) list \<Rightarrow> vec3 list" where
  "plain_difference pos idx = map (\<lambda>(s, t). vsub (item pos t) (item pos s)) idx"

definition tiny_cell :: mat3 where
  "tiny_cell = ((1 / 10 ^ 11, 0, 0), (0, 0, 0), (0, 0, 0))"

definition tiny_cell_graph :: AtomicDataDict where
  "tiny_cell_graph = empty_graph
     \<lparr>POSITIONS_KEY := Some [(0, 0, 0)], CELL_KEY := Some (Cell33 tiny_cell),
      EDGE_INDEX_KEY := Some [(0, 0)], EDGE_CELL_SHIFT_KEY := Some [(1, 0, 0)]\<rparr>"

definition tiny_cells_graph :: AtomicDataDict where
  "tiny_cells_graph = empty_graph
     \<lparr>POSITIONS_KEY := Some [(0, 0, 0), (0, 0, 0)],
      CELL_KEY := Some (CellN33 [tiny_cell, tiny_cell]),
      BATCH_KEY := Some [0, 1],
      EDGE_INDEX_KEY := Some [(0, 0)], EDGE_CELL_SHIFT_KEY := Some [(1, 0, 0)]\<rparr>"

definition cell_a :: mat3 where "cell_a = ((2, 0, 0), (0, 2, 0), (0, 0, 2))"

definition cell_b :: mat3 where "cell_b = ((3, 0, 0), (0, 3, 0), (0, 0, 3))"

definition two_cell_graph :: AtomicDataDict where
  "two_cell_graph = empty_graph
     \<lparr>POSITIONS_KEY := Some [(0, 0, 0), (1, 0, 0), (0, 0, 0), (0, 1, 0)],
      CELL_KEY := Some (CellN33 [cell_a, cell_b]),
      BATCH_KEY := Some [0, 0, 1, 1],
      EDGE_INDEX_KEY := Some [(0, 1), (2, 3)],
      EDGE_CELL_SHIFT_KEY := Some [(1, 0, 0), (1, 0, 0)]\<rparr>"

definition batched_reference ::
  "vec3 list \<Rightarrow> (int \<times> int) list \<Rightarrow> vec3 list \<Rightarrow> int list \<Rightarrow> mat3 list \<Rightarrow> vec3 list" where
  "batched_reference pos idx sh batch ms =
     map (\<lambda>((s, t), x). vadd (vsub (item pos t) (item pos s))
                            (vecmat x (item ms (item batch s)))) (zip idx sh)"

definition single_reference ::
  "vec3 list \<Rightarrow> (int \<times> int) list \<Rightarrow> vec3 list \<Rightarrow> mat3 \<Rightarrow> vec3 list" where
  "single_reference pos idx sh m =
     map (\<lambda>((s, t), x). vadd (vsub (item pos t) (item pos s)) (vecmat x m)) (zip idx sh)"

definition one_cell_graph :: AtomicDataDict where
  "one_cell_graph = empty_graph
     \<lparr>POSITIONS_KEY := Some [(0, 0, 0), (1, 0, 0)],
      CELL_KEY := Some (Cell33 cell_a),
      EDGE_INDEX_KEY := Some [(0, 1), (1, 0)],
      EDGE_CELL_SHIFT_KEY := Some [(0, 0, 0), (1, 0, 0)]\<rparr>"

definition free_graph :: AtomicDataDict where
  "free_graph = empty_graph
     \<lparr>POSITIONS_KEY := Some [(0, 0, 0), (3, 4, 0)],
      EDGE_INDEX_KEY := Some [(0, 1)],
      ENV_INDEX_KEY := Some [(0, 1)],
      ONSITENV_INDEX_KEY := Some [(0, 1)]\<rparr>"

definition gate_closed :: "'m AtomicDataDict_scheme \<Rightarrow> bool" where
  "gate_closed d = (case CELL_KEY d of None \<Rightarrow> True | Some c \<Rightarrow> sum_abs c \<le> 1 / 10 ^ 10)"

definition tiny_bare_graph :: AtomicDataDict where
  "tiny_bare_graph = free_graph\<lparr>CELL_KEY := Some (Cell33 tiny_cell)\<rparr>"

definition cell_bare_graph :: AtomicDataDict where
  "cell_bare_graph = free_graph\<lparr>CELL_KEY := Some (Cell33 cell_a)\<rparr>"

definition cell_shift_graph :: AtomicDataDict where
  "cell_shift_graph = free_graph
     \<lparr>CELL_KEY := Some (Cell33 cell_a),
      EDGE_CELL_SHIFT_KEY := Some [(1, 0, 0)],
      ENV_CELL_SHIFT_KEY := Some [(1, 0, 0)],
      ONSITENV_CELL_SHIFT_KEY := Some [(1, 0, 0)]\<rparr>"

definition two_cell_env_graph :: AtomicDataDict where
  "two_cell_env_graph = two_cell_graph
     \<lparr>ENV_INDEX_KEY := Some [(0, 1), (2, 3)],
      ENV_CELL_SHIFT_KEY := Some [(1, 0, 0), (1, 0, 0)],
      ONSITENV_INDEX_KEY := Some [(0, 1), (2, 3)],
      ONSITENV_CELL_SHIFT_KEY := Some [(1, 0, 0), (1, 0, 0)]\<rparr>"

section \<open>Example records of the parser\<close>

definition arr :: "nat list \<Rightarrow> dtype \<Rightarrow> complex list \<Rightarrow> ndarray" where
  "arr sh dt xs = \<lparr>shape = sh, dtype = dt, flat = xs\<rparr>"

definition water_frames :: structure_record where
  "water_frames =
     \<lparr>s_atomic_numbers = Some (arr [1] Int32 [8]),
      s_positions = Some (arr [2, 1, 3] Float32 [0, 0, 0, 1, 1, 1]),
      s_cell = Some (arr [2, 3, 3] Float32
                 [5, 0, 0, 0, 5, 0, 0, 0, 5, 6, 0, 0, 0, 6, 0, 0, 0, 6]),
      s_pbc = Some (arr [3] Bool8 [1, 1, 1])\<rparr>"

definition no_backend :: backend where
  "no_backend =
     \<lparr>get_structure = (\<lambda>idx. Inl (NotImplementedError ''get_structure'')),
      get_eigenvalue = (\<lambda>idx band_index_min. Inl (NotImplementedError ''get_eigenvalue'')),
      get_blocks = (\<lambda>idx h s d. Inl (NotImplementedError ''get_blocks''))\<rparr>"

definition empty_world :: "unit world" where
  "empty_world = \<lparr>lmdb_env = [], files = ()\<rparr>"

definition vasp_only :: "(unit, unit world, backend) register" where
  "vasp_only = [''vasp'' \<mapsto> (\<lambda>kwargs w. (Inr no_backend, w))]"

text \<open>The number four bytes denote, most significant first.\<close>

fun from_bytes4 :: "byte list \<Rightarrow> nat" where
  "from_bytes4 [a, b, c, d] =
     unat a * 16777216 + unat b * 65536 + unat c * 256 + unat d"
| "from_bytes4 bs = 0"

definition water_backend :: backend where
  "water_backend =
     \<lparr>get_structure = (\<lambda>idx. Inr water_frames),
      get_eigenvalue = (\<lambda>idx band_index_min.
        Inr \<lparr>e_eigenvalues = Some (arr [2, 1, 1] Float32 [1, 2]),
             e_kpoints = Some (arr [1, 3] Float32 [0, 0, 0])\<rparr>),
      get_blocks = (\<lambda>idx hamiltonian overlap density_matrix.
        Inr (if hamiltonian
             then Some [[(''0_0_0_0_0'', arr [1, 1] Float32 [1])],
                        [(''0_0_0_0_0'', arr [1, 1] Float32 [2])]]
             else None, None, None))\<rparr>"

lemma bind_Inr [simp]: "bind (Inr x) k = k x" by (simp add: bind_def)

lemma bind_Inl [simp]: "bind (Inl e) k = Inl e" by (simp add: bind_def)

lemma take_rows_in_range:
  "\<forall>i\<in>set is. in_range (length xs) i \<Longrightarrow> take_rows xs is = Inr (map (item xs) is)"
  by (induction "is") (simp_all add: np_item_def)

lemma take_rows_length: "take_rows xs is = Inr ys \<Longrightarrow> length ys = length is"
  by (induction "is" arbitrary: ys) (auto simp: bind_def split: sum.splits)

lemma np_arange_ptr: "0 < n \<Longrightarrow> np_arange 0 (int n + 1) (int n) = Inr [0, int n]"
proof -
  assume n: "0 < n"
  have "(- int n - 1) div int n = - 2"
  proof (cases "n = 1")
    case True then show ?thesis by simp
  next
    case False
    with n have "1 < int n" by simp
    then show ?thesis
      by (intro int_div_pos_eq[where r = "int n - 1"]) auto
  qed
  then have "nat (- ((0 - (int n + 1)) div int n)) = 2" by simp
  then show ?thesis using n by (simp add: np_arange_def upt_rec[of 0] upt_rec[of 1] numeral_2_eq_2)
qed

lemma take_rows_map:
  "\<forall>y\<in>set ys. in_range (length xs) (g y) \<Longrightarrow>
     take_rows xs (map g ys) = Inr (map (\<lambda>y. item xs (g y)) ys)"
  by (induction ys) (simp_all add: np_item_def)

lemma map2_map_same: "map2 f (map g xs) (map h xs) = map (\<lambda>x. f (g x) (h x)) xs"
  by (induction xs) simp_all

lemma length_plain_difference [simp]: "length (plain_difference pos idx) = length idx"
  by (simp add: plain_difference_def)

text \<open>Lines 54 to 56: the two gathers and their difference.\<close>

lemma gather_target:
  "valid_index (length pos) idx \<Longrightarrow>
     take_rows pos (map snd idx) = Inr (map (\<lambda>e. item pos (snd e)) idx)"
  by (rule take_rows_map) (auto simp: valid_index_def)

lemma gather_source:
  "valid_index (length pos) idx \<Longrightarrow>
     take_rows pos (map fst idx) = Inr (map (\<lambda>e. item pos (fst e)) idx)"
  by (rule take_rows_map) (auto simp: valid_index_def)

lemma map2_sub_gather:
  "map2 vsub (map (\<lambda>e. item pos (snd e)) idx) (map (\<lambda>e. item pos (fst e)) idx) =
     plain_difference pos idx"
  unfolding plain_difference_def by (induction idx) auto

lemmas gather_simps = gather_target gather_source map2_sub_gather

lemma displacement_no_cell:
  assumes "POSITIONS_KEY d = Some pos" "valid_index (length pos) idx" "CELL_KEY d = None"
  shows "displacement ik sk (Some idx) shift d = Inr (plain_difference pos idx)"
  using assms by (simp add: displacement_def getitem_def gather_simps)

lemma displacement_small_cell:
  assumes "POSITIONS_KEY d = Some pos" "valid_index (length pos) idx"
    "CELL_KEY d = Some c" "sum_abs c \<le> 1 / 10 ^ 10"
  shows "displacement ik sk (Some idx) shift d = Inr (plain_difference pos idx)"
  using assms by (simp add: displacement_def getitem_def gather_simps)

lemma displacement_single_cell:
  assumes "POSITIONS_KEY d = Some pos" "valid_index (length pos) idx"
    "CELL_KEY d = Some c" "1 / 10 ^ 10 < sum_abs c" "reshape_cell c = [m]"
    "length sh = length idx"
  shows "displacement ik sk (Some idx) (Some sh) d =
     Inr (map (\<lambda>((s, t), x). vadd (vsub (item pos t) (item pos s)) (vecmat x m)) (zip idx sh))"
proof -
  have "map2 vadd (plain_difference pos idx) (map (\<lambda>s. vecmat s m) sh) =
     map (\<lambda>((s, t), x). vadd (vsub (item pos t) (item pos s)) (vecmat x m)) (zip idx sh)"
    using assms(6) unfolding plain_difference_def
    by (induction idx sh rule: list_induct2') auto
  then show ?thesis
    using assms
    by (simp add: displacement_def getitem_def gather_simps broadcast2_def)
qed

lemma displacement_batched_cell:
  assumes "POSITIONS_KEY d = Some pos" "valid_index (length pos) idx"
    "CELL_KEY d = Some c" "1 / 10 ^ 10 < sum_abs c" "reshape_cell c = ms" "1 < length ms"
    "length sh = length idx" "BATCH_KEY d = Some batch"
    "\<forall>(s, t)\<in>set idx. in_range (length batch) s \<and> in_range (length ms) (item batch s)"
  shows "displacement ik sk (Some idx) (Some sh) d =
     Inr (map (\<lambda>((s, t), x). vadd (vsub (item pos t) (item pos s))
                                 (vecmat x (item ms (item batch s)))) (zip idx sh))"
proof -
  have b: "take_rows batch (map fst idx) = Inr (map (\<lambda>e. item batch (fst e)) idx)"
    using assms(9) by (intro take_rows_map) auto
  have c: "take_rows ms (map (\<lambda>e. item batch (fst e)) idx) =
      Inr (map (\<lambda>e. item ms (item batch (fst e))) idx)"
    using assms(9) by (intro take_rows_map) auto
  have e: "map2 vadd (plain_difference pos idx)
        (map2 vecmat sh (map (\<lambda>e. item ms (item batch (fst e))) idx)) =
     map (\<lambda>((s, t), x). vadd (vsub (item pos t) (item pos s))
                                 (vecmat x (item ms (item batch s)))) (zip idx sh)"
    using assms(7) unfolding plain_difference_def
    by (induction idx sh rule: list_induct2') auto
  show ?thesis
    using assms(1-8) 
    by (simp add: displacement_def getitem_def gather_simps broadcast2_def b c e)
qed

lemmas graph_defs = empty_graph_def tiny_cell_graph_def tiny_cells_graph_def two_cell_graph_def
  tiny_cell_def cell_a_def cell_b_def one_cell_graph_def free_graph_def

lemma with_edge_vectors_fresh:
  assumes "EDGE_VECTORS_KEY d = None"
    and "displacement ''EDGE_INDEX_KEY'' ''EDGE_CELL_SHIFT_KEY''
           (EDGE_INDEX_KEY d) (EDGE_CELL_SHIFT_KEY d) d = Inr v"
  shows "with_edge_vectors w d =
     Returns (d\<lparr>EDGE_VECTORS_KEY := Some v,
                EDGE_LENGTH_KEY := if w then Some (linalg_norm v) else EDGE_LENGTH_KEY d\<rparr>)"
  using assms by (simp add: with_edge_vectors_def Let_def)

lemma vec_abs_sum_nonneg: "0 \<le> vec_abs_sum v"
  by (cases v rule: vec_abs_sum.cases) simp

lemma vec_abs_sum_zero: "vec_abs_sum v = 0 \<Longrightarrow> v = (0, 0, 0)"
  by (cases v rule: vec_abs_sum.cases) (simp, linarith)

lemma mat_abs_sum_nonneg: "0 \<le> mat_abs_sum m"
  by (cases m rule: mat_abs_sum.cases) (simp add: vec_abs_sum_nonneg)

lemma mat_abs_sum_zero:
  assumes "mat_abs_sum m = 0"
  shows "m = ((0, 0, 0), (0, 0, 0), (0, 0, 0))"
proof -
  obtain r1 r2 r3 where m: "m = (r1, r2, r3)" by (cases m rule: mat_abs_sum.cases)
  have "0 \<le> vec_abs_sum r1" "0 \<le> vec_abs_sum r2" "0 \<le> vec_abs_sum r3"
    by (rule vec_abs_sum_nonneg)+
  with assms m have "vec_abs_sum r1 = 0" "vec_abs_sum r2 = 0" "vec_abs_sum r3 = 0"
    by simp_all
  then show ?thesis unfolding m by (simp add: vec_abs_sum_zero)
qed

lemma vecmat_zero_cell:
  assumes "mat_abs_sum m = 0"
  shows "vadd v (vecmat x m) = v"
  unfolding mat_abs_sum_zero [OF assms]
  by (cases x rule: vec_abs_sum.cases; cases v rule: vec_abs_sum.cases) simp

lemma zero_cells_member:
  assumes "sum_abs (CellN33 ms) = 0" and "m \<in> set ms"
  shows "mat_abs_sum m = 0"
proof -
  have "\<And>x. x \<in> set (map mat_abs_sum ms) \<Longrightarrow> 0 \<le> x" by (auto simp: mat_abs_sum_nonneg)
  then have "\<forall>x\<in>set (map mat_abs_sum ms). x = 0"
    using assms(1) sum_list_nonneg_eq_0_iff [of "map mat_abs_sum ms"] by simp
  with assms(2) show ?thesis by simp
qed

lemma item_member: "in_range (length xs) i \<Longrightarrow> item xs i \<in> set xs"
  by (auto simp: in_range_def item_def intro!: nth_mem)

lemma batched_reference_zero_cells:
  assumes "sum_abs (CellN33 ms) = 0" and "length sh = length idx"
    and "\<forall>(s, t)\<in>set idx. in_range (length ms) (item batch s)"
  shows "batched_reference pos idx sh batch ms = plain_difference pos idx"
  using assms(2,3) unfolding batched_reference_def plain_difference_def
proof (induction idx sh rule: list_induct2')
  case (4 e idx x sh)
  obtain s t where e: "e = (s, t)" by (cases e)
  from 4(3) e have "item ms (item batch s) \<in> set ms" by (auto intro: item_member)
  from zero_cells_member [OF assms(1) this] 4 e show ?case
    by (simp add: vecmat_zero_cell)
qed simp_all

text \<open>
  Claim C1, as amended. Take a record with positions, an edge index, an edge cell shift
  with one row per edge, a batch index and a cell array \<open>ms\<close> with more than one leading
  entry, whose entries are all zero or have absolute values that sum to more than
  1e-10, and with no edge vectors yet; let every index be in range (the edge index for
  positions and batch, the batch of a source atom for the cells). Then
  \<open>with_edge_vectors\<close> returns, and the edge vectors it stores are, edge by edge,
  \<open>positions[target] - positions[source] + shift \<cdot> cell[batch[source]]\<close>: the correction of
  an edge uses the cell of the batch of its source atom and no other. Lengths, when
  requested, are the norms of these vectors. For cells that are not zero and sum to at
  most 1e-10 the statement fails: the counterexample below has two cells of one entry
  1e-11 each, and no correction is applied.
\<close>

theorem edge_correction_source_batch_cell:
  assumes "POSITIONS_KEY d = Some pos" and "EDGE_INDEX_KEY d = Some idx"
    and "EDGE_CELL_SHIFT_KEY d = Some sh" and "BATCH_KEY d = Some batch"
    and "CELL_KEY d = Some (CellN33 ms)" and "1 < length ms"
    and "sum_abs (CellN33 ms) = 0 \<or> 1 / 10 ^ 10 < sum_abs (CellN33 ms)"
    and "EDGE_VECTORS_KEY d = None"
    and "valid_index (length pos) idx" and "length sh = length idx"
    and "\<forall>(s, t)\<in>set idx. in_range (length batch) s \<and> in_range (length ms) (item batch s)"
  shows "with_edge_vectors w d =
     Returns (d\<lparr>EDGE_VECTORS_KEY := Some (batched_reference pos idx sh batch ms),
                EDGE_LENGTH_KEY :=
                  if w then Some (linalg_norm (batched_reference pos idx sh batch ms))
                  else EDGE_LENGTH_KEY d\<rparr>)"
proof -
  have "displacement ''EDGE_INDEX_KEY'' ''EDGE_CELL_SHIFT_KEY'' (Some idx) (Some sh) d =
     Inr (batched_reference pos idx sh batch ms)"
  proof (cases "sum_abs (CellN33 ms) = 0")
    case True
    have "batched_reference pos idx sh batch ms = plain_difference pos idx"
      using assms(11) by (intro batched_reference_zero_cells [OF True assms(10)]) auto
    moreover have "sum_abs (CellN33 ms) \<le> 1 / 10 ^ 10" unfolding True by simp
    ultimately show ?thesis
      using displacement_small_cell [OF assms(1) assms(9) assms(5)] by simp
  next
    case False
    with assms(7) have big: "1 / 10 ^ 10 < sum_abs (CellN33 ms)" by simp
    show ?thesis
      unfolding batched_reference_def
      by (rule displacement_batched_cell [OF assms(1) assms(9) assms(5) big _ assms(6)
            assms(10) assms(4) assms(11)]) simp
  qed
  then show ?thesis
    using assms(2,3,8) by (intro with_edge_vectors_fresh) simp_all
qed

theorem edge_correction_source_batch_cell_witness:
  "with_edge_vectors False two_cell_graph =
     Returns (two_cell_graph\<lparr>EDGE_VECTORS_KEY := Some [(3, 0, 0), (3, 1, 0)]\<rparr>)"
  using edge_correction_source_batch_cell [of two_cell_graph
      "[(0, 0, 0), (1, 0, 0), (0, 0, 0), (0, 1, 0)]" "[(0, 1), (2, 3)]"
      "[(1, 0, 0), (1, 0, 0)]" "[0, 0, 1, 1]" "[cell_a, cell_b]" False]
  by (simp add: graph_defs valid_index_def in_range_def item_def batched_reference_def)

theorem tiny_batched_cell_counterexample:
  "POSITIONS_KEY tiny_cells_graph = Some [(0, 0, 0), (0, 0, 0)] \<and>
   EDGE_INDEX_KEY tiny_cells_graph = Some [(0, 0)] \<and>
   EDGE_CELL_SHIFT_KEY tiny_cells_graph = Some [(1, 0, 0)] \<and>
   BATCH_KEY tiny_cells_graph = Some [0, 1] \<and>
   CELL_KEY tiny_cells_graph = Some (CellN33 [tiny_cell, tiny_cell]) \<and>
   EDGE_VECTORS_KEY tiny_cells_graph = None \<and>
   with_edge_vectors True tiny_cells_graph =
     Returns (tiny_cells_graph\<lparr>EDGE_VECTORS_KEY := Some [(0, 0, 0)],
                                EDGE_LENGTH_KEY := Some [0]\<rparr>) \<and>
   batched_reference [(0, 0, 0), (0, 0, 0)] [(0, 0)] [(1, 0, 0)] [0, 1] [tiny_cell, tiny_cell]
     \<noteq> [(0, 0, 0)]"
  by (simp add: graph_defs with_edge_vectors_def displacement_def getitem_def np_item_def
      in_range_def item_def linalg_norm_def batched_reference_def)

text \<open>
  Claim C2, as amended. Take a record with positions and an edge index whose entries are
  in range, and no edge vectors yet. If the cell is absent or all its entries are zero,
  the edge vectors stored are the plain differences
  \<open>positions[target] - positions[source]\<close>. If one cell \<open>m\<close> is supplied (shape (3,3) or
  (1,3,3)) whose entries' absolute values sum to more than 1e-10, with an edge cell
  shift of one row per edge, the vectors stored are
  \<open>positions[target] - positions[source] + shift \<cdot> m\<close> for every edge. A cell that is
  not zero but sums to at most 1e-10 gets no correction, as the counterexample below
  shows.
\<close>

theorem edge_vectors_plain_or_single_cell:
  assumes "POSITIONS_KEY d = Some pos" and "EDGE_INDEX_KEY d = Some idx"
    and "EDGE_VECTORS_KEY d = None" and "valid_index (length pos) idx"
  shows "(CELL_KEY d = None \<or> (\<exists>c. CELL_KEY d = Some c \<and> sum_abs c = 0) \<longrightarrow>
            with_edge_vectors w d =
              Returns (d\<lparr>EDGE_VECTORS_KEY := Some (plain_difference pos idx),
                         EDGE_LENGTH_KEY :=
                           if w then Some (linalg_norm (plain_difference pos idx))
                           else EDGE_LENGTH_KEY d\<rparr>)) \<and>
         (\<forall>c m sh. CELL_KEY d = Some c \<and> reshape_cell c = [m] \<and> 1 / 10 ^ 10 < sum_abs c \<and>
            EDGE_CELL_SHIFT_KEY d = Some sh \<and> length sh = length idx \<longrightarrow>
            with_edge_vectors w d =
              Returns (d\<lparr>EDGE_VECTORS_KEY := Some (single_reference pos idx sh m),
                         EDGE_LENGTH_KEY :=
                           if w then Some (linalg_norm (single_reference pos idx sh m))
                           else EDGE_LENGTH_KEY d\<rparr>))"
proof (intro conjI impI allI)
  assume "CELL_KEY d = None \<or> (\<exists>c. CELL_KEY d = Some c \<and> sum_abs c = 0)"
  then have "displacement ''EDGE_INDEX_KEY'' ''EDGE_CELL_SHIFT_KEY''
      (Some idx) (EDGE_CELL_SHIFT_KEY d) d = Inr (plain_difference pos idx)"
    using assms(1,4) by (auto intro: displacement_no_cell displacement_small_cell)
  then show "with_edge_vectors w d =
      Returns (d\<lparr>EDGE_VECTORS_KEY := Some (plain_difference pos idx),
                 EDGE_LENGTH_KEY :=
                   if w then Some (linalg_norm (plain_difference pos idx))
                   else EDGE_LENGTH_KEY d\<rparr>)"
    using assms(2,3) by (intro with_edge_vectors_fresh) simp_all
next
  fix c m sh
  assume h: "CELL_KEY d = Some c \<and> reshape_cell c = [m] \<and> 1 / 10 ^ 10 < sum_abs c \<and>
      EDGE_CELL_SHIFT_KEY d = Some sh \<and> length sh = length idx"
  then have "displacement ''EDGE_INDEX_KEY'' ''EDGE_CELL_SHIFT_KEY'' (Some idx) (Some sh) d =
      Inr (single_reference pos idx sh m)"
    unfolding single_reference_def
    using assms(1,4) by (intro displacement_single_cell [where c = c]) simp_all
  then show "with_edge_vectors w d =
      Returns (d\<lparr>EDGE_VECTORS_KEY := Some (single_reference pos idx sh m),
                 EDGE_LENGTH_KEY :=
                   if w then Some (linalg_norm (single_reference pos idx sh m))
                   else EDGE_LENGTH_KEY d\<rparr>)"
    using assms(2,3) h by (intro with_edge_vectors_fresh) simp_all
qed

lemma sqrt_25: "sqrt 25 = 5"
  using real_sqrt_abs [of 5] by simp

theorem edge_vectors_plain_or_single_cell_witness:
  "with_edge_vectors True free_graph =
     Returns (free_graph\<lparr>EDGE_VECTORS_KEY := Some [(3, 4, 0)], EDGE_LENGTH_KEY := Some [5]\<rparr>) \<and>
   with_edge_vectors False one_cell_graph =
     Returns (one_cell_graph\<lparr>EDGE_VECTORS_KEY := Some [(1, 0, 0), (1, 0, 0)]\<rparr>)"
  using edge_vectors_plain_or_single_cell [of free_graph "[(0, 0, 0), (3, 4, 0)]" "[(0, 1)]" True]
    edge_vectors_plain_or_single_cell [of one_cell_graph "[(0, 0, 0), (1, 0, 0)]"
      "[(0, 1), (1, 0)]" False]
  by (simp add: graph_defs valid_index_def in_range_def item_def plain_difference_def
      single_reference_def linalg_norm_def sqrt_25)

theorem tiny_single_cell_counterexample:
  "POSITIONS_KEY tiny_cell_graph = Some [(0, 0, 0)] \<and>
   EDGE_INDEX_KEY tiny_cell_graph = Some [(0, 0)] \<and>
   EDGE_VECTORS_KEY tiny_cell_graph = None \<and>
   CELL_KEY tiny_cell_graph = Some (Cell33 tiny_cell) \<and> sum_abs (Cell33 tiny_cell) \<noteq> 0 \<and>
   EDGE_CELL_SHIFT_KEY tiny_cell_graph = Some [(1, 0, 0)] \<and>
   with_edge_vectors True tiny_cell_graph =
     Returns (tiny_cell_graph\<lparr>EDGE_VECTORS_KEY := Some [(0, 0, 0)],
                               EDGE_LENGTH_KEY := Some [0]\<rparr>) \<and>
   single_reference [(0, 0, 0)] [(0, 0)] [(1, 0, 0)] tiny_cell \<noteq> [(0, 0, 0)]"
  by (simp add: graph_defs with_edge_vectors_def displacement_def getitem_def np_item_def
      in_range_def item_def linalg_norm_def single_reference_def)

lemma with_edge_vectors_present:
  "EDGE_VECTORS_KEY d = Some v \<Longrightarrow>
     with_edge_vectors w d =
       Returns (if w \<and> EDGE_LENGTH_KEY d = None
                then d\<lparr>EDGE_LENGTH_KEY := Some (linalg_norm v)\<rparr> else d)"
  by (simp add: with_edge_vectors_def)

lemma with_env_vectors_present:
  "ENV_VECTORS_KEY d = Some v \<Longrightarrow>
     with_env_vectors w d =
       Returns (if w \<and> ENV_LENGTH_KEY d = None
                then d\<lparr>ENV_LENGTH_KEY := Some (linalg_norm v)\<rparr> else d)"
  by (simp add: with_env_vectors_def)

lemma with_onsitenv_vectors_present:
  "ONSITENV_VECTORS_KEY d = Some v \<Longrightarrow>
     with_onsitenv_vectors w d =
       Returns (if w \<and> ONSITENV_LENGTH_KEY d = None
                then d\<lparr>ONSITENV_LENGTH_KEY := Some (linalg_norm v)\<rparr> else d)"
  by (simp add: with_onsitenv_vectors_def)

lemma with_env_vectors_fresh:
  assumes "ENV_VECTORS_KEY d = None"
    and "displacement ''ENV_INDEX_KEY'' ''ENV_CELL_SHIFT_KEY''
           (ENV_INDEX_KEY d) (ENV_CELL_SHIFT_KEY d) d = Inr v"
  shows "with_env_vectors w d =
     (if w then Raises (TypeError ''norm() got an unexpected keyword argument dim'')
                 (d\<lparr>ENV_VECTORS_KEY := Some v\<rparr>)
      else Returns (d\<lparr>ENV_VECTORS_KEY := Some v\<rparr>))"
  using assms by (simp add: with_env_vectors_def Let_def)

lemma with_onsitenv_vectors_fresh:
  assumes "ONSITENV_VECTORS_KEY d = None"
    and "displacement ''ONSITENV_INDEX_KEY'' ''ONSITENV_CELL_SHIFT_KEY''
           (ONSITENV_INDEX_KEY d) (ONSITENV_CELL_SHIFT_KEY d) d = Inr v"
  shows "with_onsitenv_vectors w d =
     (if w then Raises (TypeError ''norm() got an unexpected keyword argument dim'')
                 (d\<lparr>ONSITENV_VECTORS_KEY := Some v\<rparr>)
      else Returns (d\<lparr>ONSITENV_VECTORS_KEY := Some v\<rparr>))"
  using assms by (simp add: with_onsitenv_vectors_def Let_def)

lemma with_edge_vectors_failed:
  assumes "EDGE_VECTORS_KEY d = None"
    and "displacement ''EDGE_INDEX_KEY'' ''EDGE_CELL_SHIFT_KEY''
           (EDGE_INDEX_KEY d) (EDGE_CELL_SHIFT_KEY d) d = Inl e"
  shows "with_edge_vectors w d = Raises e d"
  using assms by (simp add: with_edge_vectors_def)

lemma with_env_vectors_failed:
  assumes "ENV_VECTORS_KEY d = None"
    and "displacement ''ENV_INDEX_KEY'' ''ENV_CELL_SHIFT_KEY''
           (ENV_INDEX_KEY d) (ENV_CELL_SHIFT_KEY d) d = Inl e"
  shows "with_env_vectors w d = Raises e d"
  using assms by (simp add: with_env_vectors_def)

lemma with_onsitenv_vectors_failed:
  assumes "ONSITENV_VECTORS_KEY d = None"
    and "displacement ''ONSITENV_INDEX_KEY'' ''ONSITENV_CELL_SHIFT_KEY''
           (ONSITENV_INDEX_KEY d) (ONSITENV_CELL_SHIFT_KEY d) d = Inl e"
  shows "with_onsitenv_vectors w d = Raises e d"
  using assms by (simp add: with_onsitenv_vectors_def)

lemma with_edge_vectors_idem:
  assumes r: "with_edge_vectors w d = Returns d1"
  shows "with_edge_vectors w d1 = Returns d1"
proof (cases "EDGE_VECTORS_KEY d")
  case (Some v)
  from r have d1: "d1 = (if w \<and> EDGE_LENGTH_KEY d = None
      then d\<lparr>EDGE_LENGTH_KEY := Some (linalg_norm v)\<rparr> else d)"
    by (simp add: with_edge_vectors_present [OF Some])
  then have "EDGE_VECTORS_KEY d1 = Some v" using Some by simp
  from with_edge_vectors_present [OF this, of w] show ?thesis
    using d1 by (cases "w \<and> EDGE_LENGTH_KEY d = None") auto
next
  case None
  show ?thesis
  proof (cases "displacement ''EDGE_INDEX_KEY'' ''EDGE_CELL_SHIFT_KEY''
           (EDGE_INDEX_KEY d) (EDGE_CELL_SHIFT_KEY d) d")
    case (Inl e)
    from with_edge_vectors_failed [OF None Inl, of w] r show ?thesis by simp
  next
    case (Inr v)
    from with_edge_vectors_fresh [OF None Inr, of w] r
    have d1: "d1 = d\<lparr>EDGE_VECTORS_KEY := Some v,
        EDGE_LENGTH_KEY := if w then Some (linalg_norm v) else EDGE_LENGTH_KEY d\<rparr>"
      by simp
    then have "EDGE_VECTORS_KEY d1 = Some v" by simp
    from with_edge_vectors_present [OF this, of w] show ?thesis
      using d1 by (cases w) auto
  qed
qed

lemma with_env_vectors_idem:
  assumes r: "with_env_vectors w d = Returns d1"
  shows "with_env_vectors w d1 = Returns d1"
proof (cases "ENV_VECTORS_KEY d")
  case (Some v)
  from r have d1: "d1 = (if w \<and> ENV_LENGTH_KEY d = None
      then d\<lparr>ENV_LENGTH_KEY := Some (linalg_norm v)\<rparr> else d)"
    by (simp add: with_env_vectors_present [OF Some])
  then have "ENV_VECTORS_KEY d1 = Some v" using Some by simp
  from with_env_vectors_present [OF this, of w] show ?thesis
    using d1 by (cases "w \<and> ENV_LENGTH_KEY d = None") auto
next
  case None
  show ?thesis
  proof (cases "displacement ''ENV_INDEX_KEY'' ''ENV_CELL_SHIFT_KEY''
           (ENV_INDEX_KEY d) (ENV_CELL_SHIFT_KEY d) d")
    case (Inl e)
    from with_env_vectors_failed [OF None Inl, of w] r show ?thesis by simp
  next
    case (Inr v)
    from with_env_vectors_fresh [OF None Inr, of w] r
    have w: "\<not> w" and d1: "d1 = d\<lparr>ENV_VECTORS_KEY := Some v\<rparr>"
      by (auto split: if_splits)
    then have "ENV_VECTORS_KEY d1 = Some v" by simp
    from with_env_vectors_present [OF this, of w] show ?thesis
      using w by simp
  qed
qed

lemma with_onsitenv_vectors_idem:
  assumes r: "with_onsitenv_vectors w d = Returns d1"
  shows "with_onsitenv_vectors w d1 = Returns d1"
proof (cases "ONSITENV_VECTORS_KEY d")
  case (Some v)
  from r have d1: "d1 = (if w \<and> ONSITENV_LENGTH_KEY d = None
      then d\<lparr>ONSITENV_LENGTH_KEY := Some (linalg_norm v)\<rparr> else d)"
    by (simp add: with_onsitenv_vectors_present [OF Some])
  then have "ONSITENV_VECTORS_KEY d1 = Some v" using Some by simp
  from with_onsitenv_vectors_present [OF this, of w] show ?thesis
    using d1 by (cases "w \<and> ONSITENV_LENGTH_KEY d = None") auto
next
  case None
  show ?thesis
  proof (cases "displacement ''ONSITENV_INDEX_KEY'' ''ONSITENV_CELL_SHIFT_KEY''
           (ONSITENV_INDEX_KEY d) (ONSITENV_CELL_SHIFT_KEY d) d")
    case (Inl e)
    from with_onsitenv_vectors_failed [OF None Inl, of w] r show ?thesis by simp
  next
    case (Inr v)
    from with_onsitenv_vectors_fresh [OF None Inr, of w] r
    have w: "\<not> w" and d1: "d1 = d\<lparr>ONSITENV_VECTORS_KEY := Some v\<rparr>"
      by (auto split: if_splits)
    then have "ONSITENV_VECTORS_KEY d1 = Some v" by simp
    from with_onsitenv_vectors_present [OF this, of w] show ?thesis
      using w by simp
  qed
qed

text \<open>
  Claim C3. For each of the three relations and either value of \<open>with_lengths\<close>: when a
  call returns, a second call on the returned record returns that record unchanged. When
  the vectors field is already present the call returns the record as it is, except
  that it stores the norms of the present vectors as lengths when lengths are requested
  and absent.
\<close>

theorem displacement_derivation_idempotent:
  "(with_edge_vectors w d = Returns d1 \<longrightarrow> with_edge_vectors w d1 = Returns d1) \<and>
   (with_env_vectors w d = Returns d1 \<longrightarrow> with_env_vectors w d1 = Returns d1) \<and>
   (with_onsitenv_vectors w d = Returns d1 \<longrightarrow> with_onsitenv_vectors w d1 = Returns d1) \<and>
   (EDGE_VECTORS_KEY d = Some v \<longrightarrow>
      with_edge_vectors w d =
        Returns (if w \<and> EDGE_LENGTH_KEY d = None
                 then d\<lparr>EDGE_LENGTH_KEY := Some (linalg_norm v)\<rparr> else d)) \<and>
   (ENV_VECTORS_KEY d = Some v \<longrightarrow>
      with_env_vectors w d =
        Returns (if w \<and> ENV_LENGTH_KEY d = None
                 then d\<lparr>ENV_LENGTH_KEY := Some (linalg_norm v)\<rparr> else d)) \<and>
   (ONSITENV_VECTORS_KEY d = Some v \<longrightarrow>
      with_onsitenv_vectors w d =
        Returns (if w \<and> ONSITENV_LENGTH_KEY d = None
                 then d\<lparr>ONSITENV_LENGTH_KEY := Some (linalg_norm v)\<rparr> else d))"
proof (intro conjI impI)
  assume "with_edge_vectors w d = Returns d1"
  then show "with_edge_vectors w d1 = Returns d1" by (rule with_edge_vectors_idem)
next
  assume "with_env_vectors w d = Returns d1"
  then show "with_env_vectors w d1 = Returns d1" by (rule with_env_vectors_idem)
next
  assume "with_onsitenv_vectors w d = Returns d1"
  then show "with_onsitenv_vectors w d1 = Returns d1" by (rule with_onsitenv_vectors_idem)
next
  assume "EDGE_VECTORS_KEY d = Some v"
  then show "with_edge_vectors w d =
      Returns (if w \<and> EDGE_LENGTH_KEY d = None
               then d\<lparr>EDGE_LENGTH_KEY := Some (linalg_norm v)\<rparr> else d)"
    by (rule with_edge_vectors_present)
next
  assume "ENV_VECTORS_KEY d = Some v"
  then show "with_env_vectors w d =
      Returns (if w \<and> ENV_LENGTH_KEY d = None
               then d\<lparr>ENV_LENGTH_KEY := Some (linalg_norm v)\<rparr> else d)"
    by (rule with_env_vectors_present)
next
  assume "ONSITENV_VECTORS_KEY d = Some v"
  then show "with_onsitenv_vectors w d =
      Returns (if w \<and> ONSITENV_LENGTH_KEY d = None
               then d\<lparr>ONSITENV_LENGTH_KEY := Some (linalg_norm v)\<rparr> else d)"
    by (rule with_onsitenv_vectors_present)
qed

text \<open>
  Claim C4, evaluated where the code departs from it. On a record with positions, the
  three index fields and no vectors, lengths requested: \<open>with_env_vectors\<close> and
  \<open>with_onsitenv_vectors\<close> store the vectors and then raise TypeError, so no length field
  is stored; \<open>with_edge_vectors\<close>, on the same record, stores the vector (3,4,0) and
  its length 5.
\<close>

theorem fresh_env_lengths_raise:
  "with_env_vectors True free_graph =
     Raises (TypeError ''norm() got an unexpected keyword argument dim'')
       (free_graph\<lparr>ENV_VECTORS_KEY := Some [(3, 4, 0)]\<rparr>) \<and>
   with_onsitenv_vectors True free_graph =
     Raises (TypeError ''norm() got an unexpected keyword argument dim'')
       (free_graph\<lparr>ONSITENV_VECTORS_KEY := Some [(3, 4, 0)]\<rparr>) \<and>
   with_edge_vectors True free_graph =
     Returns (free_graph\<lparr>EDGE_VECTORS_KEY := Some [(3, 4, 0)], EDGE_LENGTH_KEY := Some [5]\<rparr>)"
  by (simp add: graph_defs with_env_vectors_def with_onsitenv_vectors_def with_edge_vectors_def
      displacement_def getitem_def np_item_def in_range_def item_def linalg_norm_def sqrt_25)

text \<open>
  Claim C6, evaluated where the code departs from it. On a record with positions of no
  atoms and no batch index, \<open>with_batch\<close> stores the empty batch index and then raises
  ZeroDivisionError from \<open>np.arange\<close> with step 0: no batch pointer is stored.
\<close>

theorem with_batch_no_atoms:
  "with_batch (empty_graph\<lparr>POSITIONS_KEY := Some []\<rparr>) =
     Raises ZeroDivisionError (empty_graph\<lparr>POSITIONS_KEY := Some [], BATCH_KEY := Some []\<rparr>)"
  by (simp add: with_batch_def getitem_def np_zeros_def np_arange_def empty_graph_def)

lemma with_batch_some_atoms:
  assumes "BATCH_KEY d = None" and "POSITIONS_KEY d = Some pos" and "0 < length pos"
  shows "with_batch d =
     Returns (d\<lparr>BATCH_KEY := Some (replicate (length pos) 0),
                BATCH_PTR_KEY := Some [0, int (length pos)]\<rparr>)"
  using assms by (simp add: with_batch_def getitem_def np_zeros_def np_arange_ptr)

lemma with_batch_present: "BATCH_KEY d = Some b \<Longrightarrow> with_batch d = Returns d"
  by (simp add: with_batch_def)

lemma with_batch_frame:
  "final (with_batch d) =
     d\<lparr>BATCH_KEY := BATCH_KEY (final (with_batch d)),
       BATCH_PTR_KEY := BATCH_PTR_KEY (final (with_batch d))\<rparr>"
proof (cases "BATCH_KEY d")
  case (Some b)
  then show ?thesis by (simp add: with_batch_def)
next
  case None
  show ?thesis
  proof (cases "POSITIONS_KEY d")
    case n: None
    with None show ?thesis by (simp add: with_batch_def getitem_def)
  next
    case (Some pos)
    show ?thesis
    proof (cases "length pos = 0")
      case True
      with None Some show ?thesis
        by (simp add: with_batch_def getitem_def np_arange_def)
    next
      case False
      then have "0 < length pos" by simp
      from with_batch_some_atoms [OF None Some this] show ?thesis by simp
    qed
  qed
qed

lemma with_edge_vectors_frame:
  "final (with_edge_vectors w d) =
     d\<lparr>EDGE_VECTORS_KEY := EDGE_VECTORS_KEY (final (with_edge_vectors w d)),
       EDGE_LENGTH_KEY := EDGE_LENGTH_KEY (final (with_edge_vectors w d))\<rparr>"
proof (cases "EDGE_VECTORS_KEY d")
  case (Some v)
  from with_edge_vectors_present [OF this, of w] show ?thesis using Some by simp
next
  case None
  show ?thesis
  proof (cases "displacement ''EDGE_INDEX_KEY'' ''EDGE_CELL_SHIFT_KEY''
           (EDGE_INDEX_KEY d) (EDGE_CELL_SHIFT_KEY d) d")
    case (Inl e)
    from with_edge_vectors_failed [OF None Inl, of w] show ?thesis using None by simp
  next
    case (Inr v)
    from with_edge_vectors_fresh [OF None Inr, of w] show ?thesis by simp
  qed
qed

lemma with_env_vectors_frame:
  "final (with_env_vectors w d) =
     d\<lparr>ENV_VECTORS_KEY := ENV_VECTORS_KEY (final (with_env_vectors w d)),
       ENV_LENGTH_KEY := ENV_LENGTH_KEY (final (with_env_vectors w d))\<rparr>"
proof (cases "ENV_VECTORS_KEY d")
  case (Some v)
  from with_env_vectors_present [OF this, of w] show ?thesis using Some by simp
next
  case None
  show ?thesis
  proof (cases "displacement ''ENV_INDEX_KEY'' ''ENV_CELL_SHIFT_KEY''
           (ENV_INDEX_KEY d) (ENV_CELL_SHIFT_KEY d) d")
    case (Inl e)
    from with_env_vectors_failed [OF None Inl, of w] show ?thesis using None by simp
  next
    case (Inr v)
    from with_env_vectors_fresh [OF None Inr, of w] show ?thesis by simp
  qed
qed

lemma with_onsitenv_vectors_frame:
  "final (with_onsitenv_vectors w d) =
     d\<lparr>ONSITENV_VECTORS_KEY := ONSITENV_VECTORS_KEY (final (with_onsitenv_vectors w d)),
       ONSITENV_LENGTH_KEY := ONSITENV_LENGTH_KEY (final (with_onsitenv_vectors w d))\<rparr>"
proof (cases "ONSITENV_VECTORS_KEY d")
  case (Some v)
  from with_onsitenv_vectors_present [OF this, of w] show ?thesis using Some by simp
next
  case None
  show ?thesis
  proof (cases "displacement ''ONSITENV_INDEX_KEY'' ''ONSITENV_CELL_SHIFT_KEY''
           (ONSITENV_INDEX_KEY d) (ONSITENV_CELL_SHIFT_KEY d) d")
    case (Inl e)
    from with_onsitenv_vectors_failed [OF None Inl, of w] show ?thesis using None by simp
  next
    case (Inr v)
    from with_onsitenv_vectors_fresh [OF None Inr, of w] show ?thesis by simp
  qed
qed

text \<open>What a call leaves in the heap, whatever the operation.\<close>

lemma call_store: "snd (call f r h) = h(r := final (f (h r)))"
  by (cases "f (h r)") (simp_all add: call_def)

lemma call_value: "fst (call f r h) = Return r \<or> (\<exists>e. fst (call f r h) = Raise e)"
  by (cases "f (h r)") (simp_all add: call_def)

text \<open>
  Claim C5, as amended. Each operation (batch defaulting and the displacement derivation
  of the three relations) assigns its derived fields into the dictionary it receives and
  returns that same dictionary, not a copy: the value of a call that returns is the
  reference it was given; every other dictionary of the heap is as before; and the
  dictionary at the reference differs from what it was in at most the two fields the
  operation derives (batch index and pointer; vectors and lengths of the relation).
\<close>

theorem operations_assign_into_given_dictionary:
  fixes h :: "ref \<Rightarrow> 'm AtomicDataDict_scheme"
  shows
  "(fst (call with_batch r h) = Return r \<or> (\<exists>e. fst (call with_batch r h) = Raise e)) \<and>
   (\<forall>r'. r' \<noteq> r \<longrightarrow> snd (call with_batch r h) r' = h r') \<and>
   snd (call with_batch r h) r =
     (h r)\<lparr>BATCH_KEY := BATCH_KEY (snd (call with_batch r h) r),
            BATCH_PTR_KEY := BATCH_PTR_KEY (snd (call with_batch r h) r)\<rparr> \<and>
   (fst (call (with_edge_vectors w) r h) = Return r \<or>
      (\<exists>e. fst (call (with_edge_vectors w) r h) = Raise e)) \<and>
   (\<forall>r'. r' \<noteq> r \<longrightarrow> snd (call (with_edge_vectors w) r h) r' = h r') \<and>
   snd (call (with_edge_vectors w) r h) r =
     (h r)\<lparr>EDGE_VECTORS_KEY := EDGE_VECTORS_KEY (snd (call (with_edge_vectors w) r h) r),
            EDGE_LENGTH_KEY := EDGE_LENGTH_KEY (snd (call (with_edge_vectors w) r h) r)\<rparr> \<and>
   (fst (call (with_env_vectors w) r h) = Return r \<or>
      (\<exists>e. fst (call (with_env_vectors w) r h) = Raise e)) \<and>
   (\<forall>r'. r' \<noteq> r \<longrightarrow> snd (call (with_env_vectors w) r h) r' = h r') \<and>
   snd (call (with_env_vectors w) r h) r =
     (h r)\<lparr>ENV_VECTORS_KEY := ENV_VECTORS_KEY (snd (call (with_env_vectors w) r h) r),
            ENV_LENGTH_KEY := ENV_LENGTH_KEY (snd (call (with_env_vectors w) r h) r)\<rparr> \<and>
   (fst (call (with_onsitenv_vectors w) r h) = Return r \<or>
      (\<exists>e. fst (call (with_onsitenv_vectors w) r h) = Raise e)) \<and>
   (\<forall>r'. r' \<noteq> r \<longrightarrow> snd (call (with_onsitenv_vectors w) r h) r' = h r') \<and>
   snd (call (with_onsitenv_vectors w) r h) r =
     (h r)\<lparr>ONSITENV_VECTORS_KEY :=
              ONSITENV_VECTORS_KEY (snd (call (with_onsitenv_vectors w) r h) r),
            ONSITENV_LENGTH_KEY :=
              ONSITENV_LENGTH_KEY (snd (call (with_onsitenv_vectors w) r h) r)\<rparr>"
proof -
  have b: "snd (call with_batch r h) r = final (with_batch (h r))"
    and e: "snd (call (with_edge_vectors w) r h) r = final (with_edge_vectors w (h r))"
    and v: "snd (call (with_env_vectors w) r h) r = final (with_env_vectors w (h r))"
    and o: "snd (call (with_onsitenv_vectors w) r h) r = final (with_onsitenv_vectors w (h r))"
    by (simp_all add: call_store)
  show ?thesis
    unfolding b e v o
    using with_batch_frame [of "h r"] with_edge_vectors_frame [of w "h r"]
      with_env_vectors_frame [of w "h r"] with_onsitenv_vectors_frame [of w "h r"]
      call_value [of with_batch r h] call_value [of "with_edge_vectors w" r h]
      call_value [of "with_env_vectors w" r h] call_value [of "with_onsitenv_vectors w" r h]
    by (simp add: call_store)
qed

theorem operations_assign_into_given_dictionary_witness:
  "fst (call with_batch 0 (\<lambda>r. free_graph)) = Return 0 \<and>
   snd (call with_batch 0 (\<lambda>r. free_graph)) 1 = free_graph \<and>
   snd (call with_batch 0 (\<lambda>r. free_graph)) 0 =
     free_graph\<lparr>BATCH_KEY := Some [0, 0], BATCH_PTR_KEY := Some [0, 2]\<rparr>"
  using operations_assign_into_given_dictionary [of 0 "\<lambda>r. free_graph" True]
  by (simp add: call_def with_batch_def getitem_def np_zeros_def np_arange_def graph_defs
      upt_rec [of 0] upt_rec [of 1] numeral_2_eq_2)

theorem caller_dictionary_changed_counterexample:
  "BATCH_KEY free_graph = None \<and>
   fst (call with_batch 0 (\<lambda>r. free_graph)) = Return 0 \<and>
   BATCH_KEY (snd (call with_batch 0 (\<lambda>r. free_graph)) 0) = Some [0, 0] \<and>
   snd (call with_batch 0 (\<lambda>r. free_graph)) 0 \<noteq> free_graph"
proof -
  have "with_batch free_graph =
      Returns (free_graph\<lparr>BATCH_KEY := Some [0, 0], BATCH_PTR_KEY := Some [0, 2]\<rparr>)"
    using with_batch_some_atoms [of free_graph "[(0, 0, 0), (3, 4, 0)]"]
    by (simp add: graph_defs)
  then have c: "call with_batch 0 (\<lambda>r. free_graph) =
      (Return 0, (\<lambda>r. free_graph)
         (0 := free_graph\<lparr>BATCH_KEY := Some [0, 0], BATCH_PTR_KEY := Some [0, 2]\<rparr>))"
    by (simp add: call_def)
  have n: "BATCH_KEY free_graph = None" by (simp add: graph_defs)
  have "BATCH_KEY (snd (call with_batch 0 (\<lambda>r. free_graph)) 0) \<noteq> BATCH_KEY free_graph"
    unfolding c n by simp
  then have "snd (call with_batch 0 (\<lambda>r. free_graph)) 0 \<noteq> free_graph"
    by auto
  then show ?thesis
    using n unfolding c by simp
qed

lemma displacement_gate_closed:
  assumes "gate_closed d" and "POSITIONS_KEY d' = POSITIONS_KEY d" and "CELL_KEY d' = CELL_KEY d"
  shows "displacement ik sk idx sh' d' = displacement ik sk idx sh d"
  using assms by (auto simp: displacement_def gate_closed_def split: option.splits)

lemma displacement_gate_open_no_shift:
  assumes "POSITIONS_KEY d = Some pos" "valid_index (length pos) idx"
    "CELL_KEY d = Some c" "1 / 10 ^ 10 < sum_abs c"
  shows "displacement ik sk (Some idx) None d = Inl (KeyError sk)"
  using assms by (simp add: displacement_def getitem_def gather_simps)

lemma with_edge_vectors_gate_closed:
  assumes g: "gate_closed d"
  shows "with_edge_vectors w (d\<lparr>EDGE_CELL_SHIFT_KEY := s, BATCH_KEY := b\<rparr>) =
     map_outcome (\<lambda>x. x\<lparr>EDGE_CELL_SHIFT_KEY := s, BATCH_KEY := b\<rparr>) (with_edge_vectors w d)"
proof (cases "EDGE_VECTORS_KEY d")
  case (Some v)
  then have "EDGE_VECTORS_KEY (d\<lparr>EDGE_CELL_SHIFT_KEY := s, BATCH_KEY := b\<rparr>) = Some v" by simp
  from with_edge_vectors_present [OF this, of w] with_edge_vectors_present [OF Some, of w]
  show ?thesis by simp
next
  case None
  then have n: "EDGE_VECTORS_KEY (d\<lparr>EDGE_CELL_SHIFT_KEY := s, BATCH_KEY := b\<rparr>) = None" by simp
  have eq: "displacement ''EDGE_INDEX_KEY'' ''EDGE_CELL_SHIFT_KEY''
      (EDGE_INDEX_KEY (d\<lparr>EDGE_CELL_SHIFT_KEY := s, BATCH_KEY := b\<rparr>))
      (EDGE_CELL_SHIFT_KEY (d\<lparr>EDGE_CELL_SHIFT_KEY := s, BATCH_KEY := b\<rparr>))
      (d\<lparr>EDGE_CELL_SHIFT_KEY := s, BATCH_KEY := b\<rparr>) =
    displacement ''EDGE_INDEX_KEY'' ''EDGE_CELL_SHIFT_KEY''
      (EDGE_INDEX_KEY d) (EDGE_CELL_SHIFT_KEY d) d"
    using displacement_gate_closed [OF g, of "d\<lparr>EDGE_CELL_SHIFT_KEY := s, BATCH_KEY := b\<rparr>"]
    by simp
  show ?thesis
  proof (cases "displacement ''EDGE_INDEX_KEY'' ''EDGE_CELL_SHIFT_KEY''
           (EDGE_INDEX_KEY d) (EDGE_CELL_SHIFT_KEY d) d")
    case (Inl e)
    from with_edge_vectors_failed [OF n, of e w] with_edge_vectors_failed [OF None Inl, of w]
    show ?thesis using eq Inl by simp
  next
    case (Inr v)
    from with_edge_vectors_fresh [OF n, of v w] with_edge_vectors_fresh [OF None Inr, of w]
    show ?thesis using eq Inr by simp
  qed
qed

lemma with_env_vectors_gate_closed:
  assumes g: "gate_closed d"
  shows "with_env_vectors w (d\<lparr>ENV_CELL_SHIFT_KEY := s, BATCH_KEY := b\<rparr>) =
     map_outcome (\<lambda>x. x\<lparr>ENV_CELL_SHIFT_KEY := s, BATCH_KEY := b\<rparr>) (with_env_vectors w d)"
proof (cases "ENV_VECTORS_KEY d")
  case (Some v)
  then have "ENV_VECTORS_KEY (d\<lparr>ENV_CELL_SHIFT_KEY := s, BATCH_KEY := b\<rparr>) = Some v" by simp
  from with_env_vectors_present [OF this, of w] with_env_vectors_present [OF Some, of w]
  show ?thesis by simp
next
  case None
  then have n: "ENV_VECTORS_KEY (d\<lparr>ENV_CELL_SHIFT_KEY := s, BATCH_KEY := b\<rparr>) = None" by simp
  have eq: "displacement ''ENV_INDEX_KEY'' ''ENV_CELL_SHIFT_KEY''
      (ENV_INDEX_KEY (d\<lparr>ENV_CELL_SHIFT_KEY := s, BATCH_KEY := b\<rparr>))
      (ENV_CELL_SHIFT_KEY (d\<lparr>ENV_CELL_SHIFT_KEY := s, BATCH_KEY := b\<rparr>))
      (d\<lparr>ENV_CELL_SHIFT_KEY := s, BATCH_KEY := b\<rparr>) =
    displacement ''ENV_INDEX_KEY'' ''ENV_CELL_SHIFT_KEY''
      (ENV_INDEX_KEY d) (ENV_CELL_SHIFT_KEY d) d"
    using displacement_gate_closed [OF g, of "d\<lparr>ENV_CELL_SHIFT_KEY := s, BATCH_KEY := b\<rparr>"]
    by simp
  show ?thesis
  proof (cases "displacement ''ENV_INDEX_KEY'' ''ENV_CELL_SHIFT_KEY''
           (ENV_INDEX_KEY d) (ENV_CELL_SHIFT_KEY d) d")
    case (Inl e)
    from with_env_vectors_failed [OF n, of e w] with_env_vectors_failed [OF None Inl, of w]
    show ?thesis using eq Inl by simp
  next
    case (Inr v)
    from with_env_vectors_fresh [OF n, of v w] with_env_vectors_fresh [OF None Inr, of w]
    show ?thesis using eq Inr by simp
  qed
qed

lemma with_onsitenv_vectors_gate_closed:
  assumes g: "gate_closed d"
  shows "with_onsitenv_vectors w (d\<lparr>ONSITENV_CELL_SHIFT_KEY := s, BATCH_KEY := b\<rparr>) =
     map_outcome (\<lambda>x. x\<lparr>ONSITENV_CELL_SHIFT_KEY := s, BATCH_KEY := b\<rparr>) (with_onsitenv_vectors w d)"
proof (cases "ONSITENV_VECTORS_KEY d")
  case (Some v)
  then have "ONSITENV_VECTORS_KEY (d\<lparr>ONSITENV_CELL_SHIFT_KEY := s, BATCH_KEY := b\<rparr>) = Some v" by simp
  from with_onsitenv_vectors_present [OF this, of w] with_onsitenv_vectors_present [OF Some, of w]
  show ?thesis by simp
next
  case None
  then have n: "ONSITENV_VECTORS_KEY (d\<lparr>ONSITENV_CELL_SHIFT_KEY := s, BATCH_KEY := b\<rparr>) = None" by simp
  have eq: "displacement ''ONSITENV_INDEX_KEY'' ''ONSITENV_CELL_SHIFT_KEY''
      (ONSITENV_INDEX_KEY (d\<lparr>ONSITENV_CELL_SHIFT_KEY := s, BATCH_KEY := b\<rparr>))
      (ONSITENV_CELL_SHIFT_KEY (d\<lparr>ONSITENV_CELL_SHIFT_KEY := s, BATCH_KEY := b\<rparr>))
      (d\<lparr>ONSITENV_CELL_SHIFT_KEY := s, BATCH_KEY := b\<rparr>) =
    displacement ''ONSITENV_INDEX_KEY'' ''ONSITENV_CELL_SHIFT_KEY''
      (ONSITENV_INDEX_KEY d) (ONSITENV_CELL_SHIFT_KEY d) d"
    using displacement_gate_closed [OF g, of "d\<lparr>ONSITENV_CELL_SHIFT_KEY := s, BATCH_KEY := b\<rparr>"]
    by simp
  show ?thesis
  proof (cases "displacement ''ONSITENV_INDEX_KEY'' ''ONSITENV_CELL_SHIFT_KEY''
           (ONSITENV_INDEX_KEY d) (ONSITENV_CELL_SHIFT_KEY d) d")
    case (Inl e)
    from with_onsitenv_vectors_failed [OF n, of e w] with_onsitenv_vectors_failed [OF None Inl, of w]
    show ?thesis using eq Inl by simp
  next
    case (Inr v)
    from with_onsitenv_vectors_fresh [OF n, of v w] with_onsitenv_vectors_fresh [OF None Inr, of w]
    show ?thesis using eq Inr by simp
  qed
qed

lemma with_edge_vectors_gate_open_single:
  assumes "CELL_KEY d = Some c"
    and "1 / 10 ^ 10 < sum_abs c"
    and "POSITIONS_KEY d = Some pos"
    and "valid_index (length pos) idx"
    and "EDGE_INDEX_KEY d = Some idx"
    and "EDGE_VECTORS_KEY d = None"
    and "EDGE_CELL_SHIFT_KEY d = Some sh"
    and "length sh = length idx"
    and "reshape_cell c = [m]"
  shows
    "with_edge_vectors w d =
       Returns (d\<lparr>EDGE_VECTORS_KEY := Some (single_reference pos idx sh m),
                  EDGE_LENGTH_KEY :=
                    if w then Some (linalg_norm (single_reference pos idx sh m))
                    else EDGE_LENGTH_KEY d\<rparr>)"
proof -
  have "displacement ''EDGE_INDEX_KEY'' ''EDGE_CELL_SHIFT_KEY''
      (EDGE_INDEX_KEY d) (EDGE_CELL_SHIFT_KEY d) d = Inr (single_reference pos idx sh m)"
    unfolding assms(5) assms(7) single_reference_def
    by (rule displacement_single_cell [OF assms(3) assms(4) assms(1) assms(2) assms(9) assms(8)])
  from with_edge_vectors_fresh [OF assms(6) this] show ?thesis .
qed

lemma with_edge_vectors_gate_open_batched:
  assumes "CELL_KEY d = Some c"
    and "1 / 10 ^ 10 < sum_abs c"
    and "POSITIONS_KEY d = Some pos"
    and "valid_index (length pos) idx"
    and "EDGE_INDEX_KEY d = Some idx"
    and "EDGE_VECTORS_KEY d = None"
    and "EDGE_CELL_SHIFT_KEY d = Some sh"
    and "length sh = length idx"
    and "1 < length (reshape_cell c)"
    and "BATCH_KEY d = Some batch"
    and "\<forall>(s, t)\<in>set idx. in_range (length batch) s \<and> in_range (length (reshape_cell c)) (item batch s)"
  shows
    "with_edge_vectors w d =
       Returns (d\<lparr>EDGE_VECTORS_KEY := Some (batched_reference pos idx sh batch (reshape_cell c)),
                  EDGE_LENGTH_KEY :=
                    if w then Some (linalg_norm (batched_reference pos idx sh batch (reshape_cell c)))
                    else EDGE_LENGTH_KEY d\<rparr>)"
proof -
  have "displacement ''EDGE_INDEX_KEY'' ''EDGE_CELL_SHIFT_KEY''
      (EDGE_INDEX_KEY d) (EDGE_CELL_SHIFT_KEY d) d = Inr (batched_reference pos idx sh batch (reshape_cell c))"
    unfolding assms(5) assms(7) batched_reference_def
    by (rule displacement_batched_cell [OF assms(3) assms(4) assms(1) assms(2) refl assms(9)
          assms(8) assms(10) assms(11)])
  from with_edge_vectors_fresh [OF assms(6) this] show ?thesis .
qed

lemma with_env_vectors_gate_open_single:
  assumes "CELL_KEY d = Some c"
    and "1 / 10 ^ 10 < sum_abs c"
    and "POSITIONS_KEY d = Some pos"
    and "valid_index (length pos) idx"
    and "ENV_INDEX_KEY d = Some idx"
    and "ENV_VECTORS_KEY d = None"
    and "ENV_CELL_SHIFT_KEY d = Some sh"
    and "length sh = length idx"
    and "reshape_cell c = [m]"
  shows
    "with_env_vectors False d =
       Returns (d\<lparr>ENV_VECTORS_KEY := Some (single_reference pos idx sh m)\<rparr>) \<and>
     ENV_VECTORS_KEY (final (with_env_vectors w d)) = Some (single_reference pos idx sh m)"
proof -
  have "displacement ''ENV_INDEX_KEY'' ''ENV_CELL_SHIFT_KEY''
      (ENV_INDEX_KEY d) (ENV_CELL_SHIFT_KEY d) d = Inr (single_reference pos idx sh m)"
    unfolding assms(5) assms(7) single_reference_def
    by (rule displacement_single_cell [OF assms(3) assms(4) assms(1) assms(2) assms(9) assms(8)])
  note f = with_env_vectors_fresh [OF assms(6) this]
  show ?thesis using f [of False] f [of w] by simp
qed

lemma with_env_vectors_gate_open_batched:
  assumes "CELL_KEY d = Some c"
    and "1 / 10 ^ 10 < sum_abs c"
    and "POSITIONS_KEY d = Some pos"
    and "valid_index (length pos) idx"
    and "ENV_INDEX_KEY d = Some idx"
    and "ENV_VECTORS_KEY d = None"
    and "ENV_CELL_SHIFT_KEY d = Some sh"
    and "length sh = length idx"
    and "1 < length (reshape_cell c)"
    and "BATCH_KEY d = Some batch"
    and "\<forall>(s, t)\<in>set idx. in_range (length batch) s \<and> in_range (length (reshape_cell c)) (item batch s)"
  shows
    "with_env_vectors False d =
       Returns (d\<lparr>ENV_VECTORS_KEY := Some (batched_reference pos idx sh batch (reshape_cell c))\<rparr>) \<and>
     ENV_VECTORS_KEY (final (with_env_vectors w d)) = Some (batched_reference pos idx sh batch (reshape_cell c))"
proof -
  have "displacement ''ENV_INDEX_KEY'' ''ENV_CELL_SHIFT_KEY''
      (ENV_INDEX_KEY d) (ENV_CELL_SHIFT_KEY d) d = Inr (batched_reference pos idx sh batch (reshape_cell c))"
    unfolding assms(5) assms(7) batched_reference_def
    by (rule displacement_batched_cell [OF assms(3) assms(4) assms(1) assms(2) refl assms(9)
          assms(8) assms(10) assms(11)])
  note f = with_env_vectors_fresh [OF assms(6) this]
  show ?thesis using f [of False] f [of w] by simp
qed

lemma with_onsitenv_vectors_gate_open_single:
  assumes "CELL_KEY d = Some c"
    and "1 / 10 ^ 10 < sum_abs c"
    and "POSITIONS_KEY d = Some pos"
    and "valid_index (length pos) idx"
    and "ONSITENV_INDEX_KEY d = Some idx"
    and "ONSITENV_VECTORS_KEY d = None"
    and "ONSITENV_CELL_SHIFT_KEY d = Some sh"
    and "length sh = length idx"
    and "reshape_cell c = [m]"
  shows
    "with_onsitenv_vectors False d =
       Returns (d\<lparr>ONSITENV_VECTORS_KEY := Some (single_reference pos idx sh m)\<rparr>) \<and>
     ONSITENV_VECTORS_KEY (final (with_onsitenv_vectors w d)) = Some (single_reference pos idx sh m)"
proof -
  have "displacement ''ONSITENV_INDEX_KEY'' ''ONSITENV_CELL_SHIFT_KEY''
      (ONSITENV_INDEX_KEY d) (ONSITENV_CELL_SHIFT_KEY d) d = Inr (single_reference pos idx sh m)"
    unfolding assms(5) assms(7) single_reference_def
    by (rule displacement_single_cell [OF assms(3) assms(4) assms(1) assms(2) assms(9) assms(8)])
  note f = with_onsitenv_vectors_fresh [OF assms(6) this]
  show ?thesis using f [of False] f [of w] by simp
qed

lemma with_onsitenv_vectors_gate_open_batched:
  assumes "CELL_KEY d = Some c"
    and "1 / 10 ^ 10 < sum_abs c"
    and "POSITIONS_KEY d = Some pos"
    and "valid_index (length pos) idx"
    and "ONSITENV_INDEX_KEY d = Some idx"
    and "ONSITENV_VECTORS_KEY d = None"
    and "ONSITENV_CELL_SHIFT_KEY d = Some sh"
    and "length sh = length idx"
    and "1 < length (reshape_cell c)"
    and "BATCH_KEY d = Some batch"
    and "\<forall>(s, t)\<in>set idx. in_range (length batch) s \<and> in_range (length (reshape_cell c)) (item batch s)"
  shows
    "with_onsitenv_vectors False d =
       Returns (d\<lparr>ONSITENV_VECTORS_KEY := Some (batched_reference pos idx sh batch (reshape_cell c))\<rparr>) \<and>
     ONSITENV_VECTORS_KEY (final (with_onsitenv_vectors w d)) = Some (batched_reference pos idx sh batch (reshape_cell c))"
proof -
  have "displacement ''ONSITENV_INDEX_KEY'' ''ONSITENV_CELL_SHIFT_KEY''
      (ONSITENV_INDEX_KEY d) (ONSITENV_CELL_SHIFT_KEY d) d = Inr (batched_reference pos idx sh batch (reshape_cell c))"
    unfolding assms(5) assms(7) batched_reference_def
    by (rule displacement_batched_cell [OF assms(3) assms(4) assms(1) assms(2) refl assms(9)
          assms(8) assms(10) assms(11)])
  note f = with_onsitenv_vectors_fresh [OF assms(6) this]
  show ?thesis using f [of False] f [of w] by simp
qed

text \<open>
  Claim C10. Let the record contain a cell \<open>c\<close>. When the absolute values of the
  entries of \<open>c\<close> sum to at most 1e-10, none of the three derivations reads the cell
  shift or the batch index: assigning any value to them, or removing them, changes the
  outcome in those two fields only; and with positions and a valid index the vectors
  stored are the plain differences, whether or not a cell shift or a batch is present
  (for the environment relations the call returns when no lengths are requested; with
  lengths it ends as in claim C4, after storing these vectors). When the sum exceeds
  1e-10 the correction branch is taken, for each of the three relations: it reads the
  cell shift and raises KeyError when the cell shift is absent; with a cell shift of
  one row per edge the vectors stored are the plain differences plus
  \<open>shift \<cdot> cell\<close>, with the one cell when the cell array has one leading entry, and
  with the cell of the batch of the source atom when it has more than one.
\<close>

theorem periodic_correction_gate:
  assumes c: "CELL_KEY d = Some c"
  shows
  "(sum_abs c \<le> 1 / 10 ^ 10 \<longrightarrow>
      with_edge_vectors w (d\<lparr>EDGE_CELL_SHIFT_KEY := s, BATCH_KEY := b\<rparr>) =
        map_outcome (\<lambda>x. x\<lparr>EDGE_CELL_SHIFT_KEY := s, BATCH_KEY := b\<rparr>)
          (with_edge_vectors w d) \<and>
      with_env_vectors w (d\<lparr>ENV_CELL_SHIFT_KEY := s, BATCH_KEY := b\<rparr>) =
        map_outcome (\<lambda>x. x\<lparr>ENV_CELL_SHIFT_KEY := s, BATCH_KEY := b\<rparr>)
          (with_env_vectors w d) \<and>
      with_onsitenv_vectors w (d\<lparr>ONSITENV_CELL_SHIFT_KEY := s, BATCH_KEY := b\<rparr>) =
        map_outcome (\<lambda>x. x\<lparr>ONSITENV_CELL_SHIFT_KEY := s, BATCH_KEY := b\<rparr>)
          (with_onsitenv_vectors w d) \<and>
      (POSITIONS_KEY d = Some pos \<and> valid_index (length pos) idx \<longrightarrow>
         (EDGE_INDEX_KEY d = Some idx \<and> EDGE_VECTORS_KEY d = None \<longrightarrow>
            with_edge_vectors w d =
              Returns (d\<lparr>EDGE_VECTORS_KEY := Some (plain_difference pos idx),
                         EDGE_LENGTH_KEY :=
                           if w then Some (linalg_norm (plain_difference pos idx))
                           else EDGE_LENGTH_KEY d\<rparr>)) \<and>
         (ENV_INDEX_KEY d = Some idx \<and> ENV_VECTORS_KEY d = None \<longrightarrow>
            with_env_vectors False d =
              Returns (d\<lparr>ENV_VECTORS_KEY := Some (plain_difference pos idx)\<rparr>) \<and>
            ENV_VECTORS_KEY (final (with_env_vectors w d)) =
              Some (plain_difference pos idx)) \<and>
         (ONSITENV_INDEX_KEY d = Some idx \<and> ONSITENV_VECTORS_KEY d = None \<longrightarrow>
            with_onsitenv_vectors False d =
              Returns (d\<lparr>ONSITENV_VECTORS_KEY := Some (plain_difference pos idx)\<rparr>) \<and>
            ONSITENV_VECTORS_KEY (final (with_onsitenv_vectors w d)) =
              Some (plain_difference pos idx)))) \<and>
   (1 / 10 ^ 10 < sum_abs c \<and> POSITIONS_KEY d = Some pos \<and> valid_index (length pos) idx \<longrightarrow>
      (EDGE_INDEX_KEY d = Some idx \<and> EDGE_VECTORS_KEY d = None \<longrightarrow>
         (EDGE_CELL_SHIFT_KEY d = None \<longrightarrow>
            with_edge_vectors w d = Raises (KeyError ''EDGE_CELL_SHIFT_KEY'') d) \<and>
         (EDGE_CELL_SHIFT_KEY d = Some sh \<and> length sh = length idx \<longrightarrow>
            (reshape_cell c = [m] \<longrightarrow>
               with_edge_vectors w d =
                 Returns (d\<lparr>EDGE_VECTORS_KEY := Some (single_reference pos idx sh m),
                            EDGE_LENGTH_KEY :=
                              if w then Some (linalg_norm (single_reference pos idx sh m))
                              else EDGE_LENGTH_KEY d\<rparr>)) \<and>
            (1 < length (reshape_cell c) \<and> BATCH_KEY d = Some batch \<and>
             (\<forall>(s, t)\<in>set idx. in_range (length batch) s \<and> in_range (length (reshape_cell c)) (item batch s)) \<longrightarrow>
               with_edge_vectors w d =
                 Returns (d\<lparr>EDGE_VECTORS_KEY := Some (batched_reference pos idx sh batch (reshape_cell c)),
                            EDGE_LENGTH_KEY :=
                              if w then Some (linalg_norm (batched_reference pos idx sh batch (reshape_cell c)))
                              else EDGE_LENGTH_KEY d\<rparr>)))) \<and>
      (ENV_INDEX_KEY d = Some idx \<and> ENV_VECTORS_KEY d = None \<longrightarrow>
         (ENV_CELL_SHIFT_KEY d = None \<longrightarrow>
            with_env_vectors w d = Raises (KeyError ''ENV_CELL_SHIFT_KEY'') d) \<and>
         (ENV_CELL_SHIFT_KEY d = Some sh \<and> length sh = length idx \<longrightarrow>
            (reshape_cell c = [m] \<longrightarrow>
               with_env_vectors False d =
                 Returns (d\<lparr>ENV_VECTORS_KEY := Some (single_reference pos idx sh m)\<rparr>) \<and>
               ENV_VECTORS_KEY (final (with_env_vectors w d)) = Some (single_reference pos idx sh m)) \<and>
            (1 < length (reshape_cell c) \<and> BATCH_KEY d = Some batch \<and>
             (\<forall>(s, t)\<in>set idx. in_range (length batch) s \<and> in_range (length (reshape_cell c)) (item batch s)) \<longrightarrow>
               with_env_vectors False d =
                 Returns (d\<lparr>ENV_VECTORS_KEY := Some (batched_reference pos idx sh batch (reshape_cell c))\<rparr>) \<and>
               ENV_VECTORS_KEY (final (with_env_vectors w d)) = Some (batched_reference pos idx sh batch (reshape_cell c))))) \<and>
      (ONSITENV_INDEX_KEY d = Some idx \<and> ONSITENV_VECTORS_KEY d = None \<longrightarrow>
         (ONSITENV_CELL_SHIFT_KEY d = None \<longrightarrow>
            with_onsitenv_vectors w d = Raises (KeyError ''ONSITENV_CELL_SHIFT_KEY'') d) \<and>
         (ONSITENV_CELL_SHIFT_KEY d = Some sh \<and> length sh = length idx \<longrightarrow>
            (reshape_cell c = [m] \<longrightarrow>
               with_onsitenv_vectors False d =
                 Returns (d\<lparr>ONSITENV_VECTORS_KEY := Some (single_reference pos idx sh m)\<rparr>) \<and>
               ONSITENV_VECTORS_KEY (final (with_onsitenv_vectors w d)) = Some (single_reference pos idx sh m)) \<and>
            (1 < length (reshape_cell c) \<and> BATCH_KEY d = Some batch \<and>
             (\<forall>(s, t)\<in>set idx. in_range (length batch) s \<and> in_range (length (reshape_cell c)) (item batch s)) \<longrightarrow>
               with_onsitenv_vectors False d =
                 Returns (d\<lparr>ONSITENV_VECTORS_KEY := Some (batched_reference pos idx sh batch (reshape_cell c))\<rparr>) \<and>
               ONSITENV_VECTORS_KEY (final (with_onsitenv_vectors w d)) = Some (batched_reference pos idx sh batch (reshape_cell c))))))"
proof (intro conjI impI; (elim conjE)?)
  assume small: "sum_abs c \<le> 1 / 10 ^ 10"
  then have g: "gate_closed d" using c by (simp add: gate_closed_def)
  show "with_edge_vectors w (d\<lparr>EDGE_CELL_SHIFT_KEY := s, BATCH_KEY := b\<rparr>) =
        map_outcome (\<lambda>x. x\<lparr>EDGE_CELL_SHIFT_KEY := s, BATCH_KEY := b\<rparr>)
          (with_edge_vectors w d)"
    by (rule with_edge_vectors_gate_closed [OF g])
  show "with_env_vectors w (d\<lparr>ENV_CELL_SHIFT_KEY := s, BATCH_KEY := b\<rparr>) =
        map_outcome (\<lambda>x. x\<lparr>ENV_CELL_SHIFT_KEY := s, BATCH_KEY := b\<rparr>)
          (with_env_vectors w d)"
    by (rule with_env_vectors_gate_closed [OF g])
  show "with_onsitenv_vectors w (d\<lparr>ONSITENV_CELL_SHIFT_KEY := s, BATCH_KEY := b\<rparr>) =
        map_outcome (\<lambda>x. x\<lparr>ONSITENV_CELL_SHIFT_KEY := s, BATCH_KEY := b\<rparr>)
          (with_onsitenv_vectors w d)"
    by (rule with_onsitenv_vectors_gate_closed [OF g])
next
  assume small: "sum_abs c \<le> 1 / 10 ^ 10"
    and p: "POSITIONS_KEY d = Some pos" and v: "valid_index (length pos) idx"
    and i: "EDGE_INDEX_KEY d = Some idx" and n: "EDGE_VECTORS_KEY d = None"
  from displacement_small_cell [OF p v c small] i n
  show "with_edge_vectors w d =
      Returns (d\<lparr>EDGE_VECTORS_KEY := Some (plain_difference pos idx),
                 EDGE_LENGTH_KEY :=
                   if w then Some (linalg_norm (plain_difference pos idx))
                   else EDGE_LENGTH_KEY d\<rparr>)"
    by (intro with_edge_vectors_fresh) simp_all
next
  assume small: "sum_abs c \<le> 1 / 10 ^ 10"
    and p: "POSITIONS_KEY d = Some pos" and v: "valid_index (length pos) idx"
    and i: "ENV_INDEX_KEY d = Some idx" and n: "ENV_VECTORS_KEY d = None"
  have "displacement ''ENV_INDEX_KEY'' ''ENV_CELL_SHIFT_KEY''
           (ENV_INDEX_KEY d) (ENV_CELL_SHIFT_KEY d) d = Inr (plain_difference pos idx)"
    using displacement_small_cell [OF p v c small] i by simp
  note f = with_env_vectors_fresh [OF n this]
  show "with_env_vectors False d =
      Returns (d\<lparr>ENV_VECTORS_KEY := Some (plain_difference pos idx)\<rparr>)"
    using f [of False] by simp
  show "ENV_VECTORS_KEY (final (with_env_vectors w d)) = Some (plain_difference pos idx)"
    using f [of w] by simp
next
  assume small: "sum_abs c \<le> 1 / 10 ^ 10"
    and p: "POSITIONS_KEY d = Some pos" and v: "valid_index (length pos) idx"
    and i: "ONSITENV_INDEX_KEY d = Some idx" and n: "ONSITENV_VECTORS_KEY d = None"
  have "displacement ''ONSITENV_INDEX_KEY'' ''ONSITENV_CELL_SHIFT_KEY''
           (ONSITENV_INDEX_KEY d) (ONSITENV_CELL_SHIFT_KEY d) d = Inr (plain_difference pos idx)"
    using displacement_small_cell [OF p v c small] i by simp
  note f = with_onsitenv_vectors_fresh [OF n this]
  show "with_onsitenv_vectors False d =
      Returns (d\<lparr>ONSITENV_VECTORS_KEY := Some (plain_difference pos idx)\<rparr>)"
    using f [of False] by simp
  show "ONSITENV_VECTORS_KEY (final (with_onsitenv_vectors w d)) =
      Some (plain_difference pos idx)"
    using f [of w] by simp
next
  assume big: "1 / 10 ^ 10 < sum_abs c"
    and p: "POSITIONS_KEY d = Some pos" and v: "valid_index (length pos) idx"
    and i: "EDGE_INDEX_KEY d = Some idx" and n: "EDGE_VECTORS_KEY d = None"
    and a: "EDGE_CELL_SHIFT_KEY d = None"
  from displacement_gate_open_no_shift [OF p v c big] i a
  show "with_edge_vectors w d = Raises (KeyError ''EDGE_CELL_SHIFT_KEY'') d"
    by (intro with_edge_vectors_failed [OF n]) simp
next
  assume big: "1 / 10 ^ 10 < sum_abs c"
    and p: "POSITIONS_KEY d = Some pos" and v: "valid_index (length pos) idx"
    and i: "EDGE_INDEX_KEY d = Some idx" and n: "EDGE_VECTORS_KEY d = None"
    and sh: "EDGE_CELL_SHIFT_KEY d = Some sh" and len: "length sh = length idx"
    and r: "reshape_cell c = [m]"
  note g = with_edge_vectors_gate_open_single [OF c big p v i n sh len r, of w]
  show "with_edge_vectors w d =
      Returns (d\<lparr>EDGE_VECTORS_KEY := Some (single_reference pos idx sh m),
                 EDGE_LENGTH_KEY :=
                   if w then Some (linalg_norm (single_reference pos idx sh m))
                   else EDGE_LENGTH_KEY d\<rparr>)"
    by (rule g)
next
  assume big: "1 / 10 ^ 10 < sum_abs c"
    and p: "POSITIONS_KEY d = Some pos" and v: "valid_index (length pos) idx"
    and i: "EDGE_INDEX_KEY d = Some idx" and n: "EDGE_VECTORS_KEY d = None"
    and sh: "EDGE_CELL_SHIFT_KEY d = Some sh" and len: "length sh = length idx"
    and l: "1 < length (reshape_cell c)"
    and bk: "BATCH_KEY d = Some batch"
    and ir: "\<forall>(s, t)\<in>set idx. in_range (length batch) s \<and> in_range (length (reshape_cell c)) (item batch s)"
  note g = with_edge_vectors_gate_open_batched [OF c big p v i n sh len l bk ir, of w]
  show "with_edge_vectors w d =
      Returns (d\<lparr>EDGE_VECTORS_KEY := Some (batched_reference pos idx sh batch (reshape_cell c)),
                 EDGE_LENGTH_KEY :=
                   if w then Some (linalg_norm (batched_reference pos idx sh batch (reshape_cell c)))
                   else EDGE_LENGTH_KEY d\<rparr>)"
    by (rule g)
next
  assume big: "1 / 10 ^ 10 < sum_abs c"
    and p: "POSITIONS_KEY d = Some pos" and v: "valid_index (length pos) idx"
    and i: "ENV_INDEX_KEY d = Some idx" and n: "ENV_VECTORS_KEY d = None"
    and a: "ENV_CELL_SHIFT_KEY d = None"
  from displacement_gate_open_no_shift [OF p v c big] i a
  show "with_env_vectors w d = Raises (KeyError ''ENV_CELL_SHIFT_KEY'') d"
    by (intro with_env_vectors_failed [OF n]) simp
next
  assume big: "1 / 10 ^ 10 < sum_abs c"
    and p: "POSITIONS_KEY d = Some pos" and v: "valid_index (length pos) idx"
    and i: "ENV_INDEX_KEY d = Some idx" and n: "ENV_VECTORS_KEY d = None"
    and sh: "ENV_CELL_SHIFT_KEY d = Some sh" and len: "length sh = length idx"
    and r: "reshape_cell c = [m]"
  note g = with_env_vectors_gate_open_single [OF c big p v i n sh len r, of w]
  show "with_env_vectors False d =
      Returns (d\<lparr>ENV_VECTORS_KEY := Some (single_reference pos idx sh m)\<rparr>)"
    using g by (rule conjunct1)
  show "ENV_VECTORS_KEY (final (with_env_vectors w d)) = Some (single_reference pos idx sh m)"
    using g by (rule conjunct2)
next
  assume big: "1 / 10 ^ 10 < sum_abs c"
    and p: "POSITIONS_KEY d = Some pos" and v: "valid_index (length pos) idx"
    and i: "ENV_INDEX_KEY d = Some idx" and n: "ENV_VECTORS_KEY d = None"
    and sh: "ENV_CELL_SHIFT_KEY d = Some sh" and len: "length sh = length idx"
    and l: "1 < length (reshape_cell c)"
    and bk: "BATCH_KEY d = Some batch"
    and ir: "\<forall>(s, t)\<in>set idx. in_range (length batch) s \<and> in_range (length (reshape_cell c)) (item batch s)"
  note g = with_env_vectors_gate_open_batched [OF c big p v i n sh len l bk ir, of w]
  show "with_env_vectors False d =
      Returns (d\<lparr>ENV_VECTORS_KEY := Some (batched_reference pos idx sh batch (reshape_cell c))\<rparr>)"
    using g by (rule conjunct1)
  show "ENV_VECTORS_KEY (final (with_env_vectors w d)) = Some (batched_reference pos idx sh batch (reshape_cell c))"
    using g by (rule conjunct2)
next
  assume big: "1 / 10 ^ 10 < sum_abs c"
    and p: "POSITIONS_KEY d = Some pos" and v: "valid_index (length pos) idx"
    and i: "ONSITENV_INDEX_KEY d = Some idx" and n: "ONSITENV_VECTORS_KEY d = None"
    and a: "ONSITENV_CELL_SHIFT_KEY d = None"
  from displacement_gate_open_no_shift [OF p v c big] i a
  show "with_onsitenv_vectors w d = Raises (KeyError ''ONSITENV_CELL_SHIFT_KEY'') d"
    by (intro with_onsitenv_vectors_failed [OF n]) simp
next
  assume big: "1 / 10 ^ 10 < sum_abs c"
    and p: "POSITIONS_KEY d = Some pos" and v: "valid_index (length pos) idx"
    and i: "ONSITENV_INDEX_KEY d = Some idx" and n: "ONSITENV_VECTORS_KEY d = None"
    and sh: "ONSITENV_CELL_SHIFT_KEY d = Some sh" and len: "length sh = length idx"
    and r: "reshape_cell c = [m]"
  note g = with_onsitenv_vectors_gate_open_single [OF c big p v i n sh len r, of w]
  show "with_onsitenv_vectors False d =
      Returns (d\<lparr>ONSITENV_VECTORS_KEY := Some (single_reference pos idx sh m)\<rparr>)"
    using g by (rule conjunct1)
  show "ONSITENV_VECTORS_KEY (final (with_onsitenv_vectors w d)) = Some (single_reference pos idx sh m)"
    using g by (rule conjunct2)
next
  assume big: "1 / 10 ^ 10 < sum_abs c"
    and p: "POSITIONS_KEY d = Some pos" and v: "valid_index (length pos) idx"
    and i: "ONSITENV_INDEX_KEY d = Some idx" and n: "ONSITENV_VECTORS_KEY d = None"
    and sh: "ONSITENV_CELL_SHIFT_KEY d = Some sh" and len: "length sh = length idx"
    and l: "1 < length (reshape_cell c)"
    and bk: "BATCH_KEY d = Some batch"
    and ir: "\<forall>(s, t)\<in>set idx. in_range (length batch) s \<and> in_range (length (reshape_cell c)) (item batch s)"
  note g = with_onsitenv_vectors_gate_open_batched [OF c big p v i n sh len l bk ir, of w]
  show "with_onsitenv_vectors False d =
      Returns (d\<lparr>ONSITENV_VECTORS_KEY := Some (batched_reference pos idx sh batch (reshape_cell c))\<rparr>)"
    using g by (rule conjunct1)
  show "ONSITENV_VECTORS_KEY (final (with_onsitenv_vectors w d)) = Some (batched_reference pos idx sh batch (reshape_cell c))"
    using g by (rule conjunct2)
qed

theorem displacement_derivation_idempotent_witness:
  "with_edge_vectors True free_graph =
     Returns (free_graph\<lparr>EDGE_VECTORS_KEY := Some [(3, 4, 0)], EDGE_LENGTH_KEY := Some [5]\<rparr>) \<and>
   with_edge_vectors True
       (free_graph\<lparr>EDGE_VECTORS_KEY := Some [(3, 4, 0)], EDGE_LENGTH_KEY := Some [5]\<rparr>) =
     Returns (free_graph\<lparr>EDGE_VECTORS_KEY := Some [(3, 4, 0)], EDGE_LENGTH_KEY := Some [5]\<rparr>) \<and>
   with_env_vectors False free_graph =
     Returns (free_graph\<lparr>ENV_VECTORS_KEY := Some [(3, 4, 0)]\<rparr>) \<and>
   with_env_vectors False (free_graph\<lparr>ENV_VECTORS_KEY := Some [(3, 4, 0)]\<rparr>) =
     Returns (free_graph\<lparr>ENV_VECTORS_KEY := Some [(3, 4, 0)]\<rparr>) \<and>
   with_onsitenv_vectors False free_graph =
     Returns (free_graph\<lparr>ONSITENV_VECTORS_KEY := Some [(3, 4, 0)]\<rparr>) \<and>
   with_onsitenv_vectors False (free_graph\<lparr>ONSITENV_VECTORS_KEY := Some [(3, 4, 0)]\<rparr>) =
     Returns (free_graph\<lparr>ONSITENV_VECTORS_KEY := Some [(3, 4, 0)]\<rparr>) \<and>
   with_env_vectors True (free_graph\<lparr>ENV_VECTORS_KEY := Some [(3, 4, 0)]\<rparr>) =
     Returns (free_graph\<lparr>ENV_VECTORS_KEY := Some [(3, 4, 0)], ENV_LENGTH_KEY := Some [5]\<rparr>)"
proof -
  have e: "with_edge_vectors True free_graph =
     Returns (free_graph\<lparr>EDGE_VECTORS_KEY := Some [(3, 4, 0)], EDGE_LENGTH_KEY := Some [5]\<rparr>)"
    and v: "with_env_vectors False free_graph =
     Returns (free_graph\<lparr>ENV_VECTORS_KEY := Some [(3, 4, 0)]\<rparr>)"
    and o: "with_onsitenv_vectors False free_graph =
     Returns (free_graph\<lparr>ONSITENV_VECTORS_KEY := Some [(3, 4, 0)]\<rparr>)"
    by (simp_all add: graph_defs with_env_vectors_def with_onsitenv_vectors_def
        with_edge_vectors_def displacement_def getitem_def np_item_def in_range_def item_def
        linalg_norm_def sqrt_25)
  have p: "ENV_VECTORS_KEY (free_graph\<lparr>ENV_VECTORS_KEY := Some [(3, 4, 0)]\<rparr>) = Some [(3, 4, 0)]"
    and l: "ENV_LENGTH_KEY (free_graph\<lparr>ENV_VECTORS_KEY := Some [(3, 4, 0)]\<rparr>) = None"
    by (simp_all add: graph_defs)
  note i = displacement_derivation_idempotent
  have e2: "with_edge_vectors True
       (free_graph\<lparr>EDGE_VECTORS_KEY := Some [(3, 4, 0)], EDGE_LENGTH_KEY := Some [5]\<rparr>) =
     Returns (free_graph\<lparr>EDGE_VECTORS_KEY := Some [(3, 4, 0)], EDGE_LENGTH_KEY := Some [5]\<rparr>)"
    by (rule i [of True free_graph, THEN conjunct1, THEN mp, OF e])
  have v2: "with_env_vectors False (free_graph\<lparr>ENV_VECTORS_KEY := Some [(3, 4, 0)]\<rparr>) =
     Returns (free_graph\<lparr>ENV_VECTORS_KEY := Some [(3, 4, 0)]\<rparr>)"
    by (rule i [of False free_graph, THEN conjunct2, THEN conjunct1, THEN mp, OF v])
  have o2: "with_onsitenv_vectors False (free_graph\<lparr>ONSITENV_VECTORS_KEY := Some [(3, 4, 0)]\<rparr>) =
     Returns (free_graph\<lparr>ONSITENV_VECTORS_KEY := Some [(3, 4, 0)]\<rparr>)"
    by (rule i [of False free_graph, THEN conjunct2, THEN conjunct2, THEN conjunct1, THEN mp,
          OF o])
  have "with_env_vectors True (free_graph\<lparr>ENV_VECTORS_KEY := Some [(3, 4, 0)]\<rparr>) =
     Returns (if True \<and> ENV_LENGTH_KEY (free_graph\<lparr>ENV_VECTORS_KEY := Some [(3, 4, 0)]\<rparr>) = None
              then free_graph\<lparr>ENV_VECTORS_KEY := Some [(3, 4, 0)]\<rparr>
                     \<lparr>ENV_LENGTH_KEY := Some (linalg_norm [(3, 4, 0)])\<rparr>
              else free_graph\<lparr>ENV_VECTORS_KEY := Some [(3, 4, 0)]\<rparr>)"
    by (rule i [THEN conjunct2, THEN conjunct2, THEN conjunct2, THEN conjunct2, THEN conjunct1,
          THEN mp, OF p])
  then have m: "with_env_vectors True (free_graph\<lparr>ENV_VECTORS_KEY := Some [(3, 4, 0)]\<rparr>) =
     Returns (free_graph\<lparr>ENV_VECTORS_KEY := Some [(3, 4, 0)], ENV_LENGTH_KEY := Some [5]\<rparr>)"
    unfolding l by (simp add: linalg_norm_def sqrt_25)
  from e e2 v v2 o o2 m show ?thesis by (intro conjI)
qed

theorem periodic_correction_gate_witness:
  "sum_abs (Cell33 tiny_cell) \<le> 1 / 10 ^ 10 \<and>
   EDGE_CELL_SHIFT_KEY tiny_bare_graph = None \<and> BATCH_KEY tiny_bare_graph = None \<and>
   with_edge_vectors True tiny_bare_graph =
     Returns (tiny_bare_graph\<lparr>EDGE_VECTORS_KEY := Some [(3, 4, 0)],
                               EDGE_LENGTH_KEY := Some [5]\<rparr>) \<and>
   with_env_vectors False tiny_bare_graph =
     Returns (tiny_bare_graph\<lparr>ENV_VECTORS_KEY := Some [(3, 4, 0)]\<rparr>) \<and>
   with_onsitenv_vectors False tiny_bare_graph =
     Returns (tiny_bare_graph\<lparr>ONSITENV_VECTORS_KEY := Some [(3, 4, 0)]\<rparr>) \<and>
   1 / 10 ^ 10 < sum_abs (Cell33 cell_a) \<and>
   with_edge_vectors True cell_bare_graph =
     Raises (KeyError ''EDGE_CELL_SHIFT_KEY'') cell_bare_graph \<and>
   with_env_vectors True cell_bare_graph =
     Raises (KeyError ''ENV_CELL_SHIFT_KEY'') cell_bare_graph \<and>
   with_onsitenv_vectors True cell_bare_graph =
     Raises (KeyError ''ONSITENV_CELL_SHIFT_KEY'') cell_bare_graph \<and>
   with_edge_vectors False cell_shift_graph =
     Returns (cell_shift_graph\<lparr>EDGE_VECTORS_KEY := Some [(5, 4, 0)]\<rparr>) \<and>
   with_env_vectors False cell_shift_graph =
     Returns (cell_shift_graph\<lparr>ENV_VECTORS_KEY := Some [(5, 4, 0)]\<rparr>) \<and>
   with_onsitenv_vectors False cell_shift_graph =
     Returns (cell_shift_graph\<lparr>ONSITENV_VECTORS_KEY := Some [(5, 4, 0)]\<rparr>) \<and>
   1 / 10 ^ 10 < sum_abs (CellN33 [cell_a, cell_b]) \<and>
   with_edge_vectors False two_cell_env_graph =
     Returns (two_cell_env_graph\<lparr>EDGE_VECTORS_KEY := Some [(3, 0, 0), (3, 1, 0)]\<rparr>) \<and>
   with_env_vectors False two_cell_env_graph =
     Returns (two_cell_env_graph\<lparr>ENV_VECTORS_KEY := Some [(3, 0, 0), (3, 1, 0)]\<rparr>) \<and>
   with_onsitenv_vectors False two_cell_env_graph =
     Returns (two_cell_env_graph\<lparr>ONSITENV_VECTORS_KEY := Some [(3, 0, 0), (3, 1, 0)]\<rparr>)"
proof -
  note defs = graph_defs tiny_bare_graph_def cell_bare_graph_def cell_shift_graph_def
    two_cell_env_graph_def valid_index_def in_range_def item_def plain_difference_def
    single_reference_def batched_reference_def linalg_norm_def sqrt_25
  have closed: "sum_abs (Cell33 tiny_cell) \<le> 1 / 10 ^ 10 \<and>
   EDGE_CELL_SHIFT_KEY tiny_bare_graph = None \<and> BATCH_KEY tiny_bare_graph = None \<and>
   with_edge_vectors True tiny_bare_graph =
     Returns (tiny_bare_graph\<lparr>EDGE_VECTORS_KEY := Some [(3, 4, 0)],
                               EDGE_LENGTH_KEY := Some [5]\<rparr>) \<and>
   with_env_vectors False tiny_bare_graph =
     Returns (tiny_bare_graph\<lparr>ENV_VECTORS_KEY := Some [(3, 4, 0)]\<rparr>) \<and>
   with_onsitenv_vectors False tiny_bare_graph =
     Returns (tiny_bare_graph\<lparr>ONSITENV_VECTORS_KEY := Some [(3, 4, 0)]\<rparr>)"
    using periodic_correction_gate [where d = tiny_bare_graph and c = "Cell33 tiny_cell"
        and w = True and s = None and b = None and pos = "[(0, 0, 0), (3, 4, 0)]"
        and idx = "[(0, 1)]"]
    by (simp add: defs)
  have absent: "1 / 10 ^ 10 < sum_abs (Cell33 cell_a) \<and>
   with_edge_vectors True cell_bare_graph =
     Raises (KeyError ''EDGE_CELL_SHIFT_KEY'') cell_bare_graph \<and>
   with_env_vectors True cell_bare_graph =
     Raises (KeyError ''ENV_CELL_SHIFT_KEY'') cell_bare_graph \<and>
   with_onsitenv_vectors True cell_bare_graph =
     Raises (KeyError ''ONSITENV_CELL_SHIFT_KEY'') cell_bare_graph"
    using periodic_correction_gate [where d = cell_bare_graph and c = "Cell33 cell_a"
        and w = True and s = None and b = None and pos = "[(0, 0, 0), (3, 4, 0)]"
        and idx = "[(0, 1)]"]
    by (simp add: defs)
  have single: "with_edge_vectors False cell_shift_graph =
     Returns (cell_shift_graph\<lparr>EDGE_VECTORS_KEY := Some [(5, 4, 0)]\<rparr>) \<and>
   with_env_vectors False cell_shift_graph =
     Returns (cell_shift_graph\<lparr>ENV_VECTORS_KEY := Some [(5, 4, 0)]\<rparr>) \<and>
   with_onsitenv_vectors False cell_shift_graph =
     Returns (cell_shift_graph\<lparr>ONSITENV_VECTORS_KEY := Some [(5, 4, 0)]\<rparr>)"
    using periodic_correction_gate [where d = cell_shift_graph and c = "Cell33 cell_a"
        and w = False and s = None and b = None and pos = "[(0, 0, 0), (3, 4, 0)]"
        and idx = "[(0, 1)]" and sh = "[(1, 0, 0)]" and m = cell_a]
    by (simp add: defs)
  have batched: "1 / 10 ^ 10 < sum_abs (CellN33 [cell_a, cell_b]) \<and>
   with_edge_vectors False two_cell_env_graph =
     Returns (two_cell_env_graph\<lparr>EDGE_VECTORS_KEY := Some [(3, 0, 0), (3, 1, 0)]\<rparr>) \<and>
   with_env_vectors False two_cell_env_graph =
     Returns (two_cell_env_graph\<lparr>ENV_VECTORS_KEY := Some [(3, 0, 0), (3, 1, 0)]\<rparr>) \<and>
   with_onsitenv_vectors False two_cell_env_graph =
     Returns (two_cell_env_graph\<lparr>ONSITENV_VECTORS_KEY := Some [(3, 0, 0), (3, 1, 0)]\<rparr>)"
    using periodic_correction_gate [where d = two_cell_env_graph
        and c = "CellN33 [cell_a, cell_b]" and w = False and s = None and b = None
        and pos = "[(0, 0, 0), (1, 0, 0), (0, 0, 0), (0, 1, 0)]" and idx = "[(0, 1), (2, 3)]"
        and sh = "[(1, 0, 0), (1, 0, 0)]" and batch = "[0, 0, 1, 1]"]
    by (simp add: defs)
  from closed absent single batched show ?thesis by (intro conjI) (elim conjE, assumption)+
qed

text \<open>
  In the freshly built branch \<open>with_edge_vectors\<close> assigns the lengths without the
  test of line 42: a length field that was present is assigned anew.
\<close>

lemma fresh_edge_lengths_assigned:
  "with_edge_vectors True (free_graph\<lparr>EDGE_LENGTH_KEY := Some [99]\<rparr>) =
     Returns (free_graph\<lparr>EDGE_VECTORS_KEY := Some [(3, 4, 0)], EDGE_LENGTH_KEY := Some [5]\<rparr>)"
  by (simp add: graph_defs with_edge_vectors_def displacement_def getitem_def np_item_def
      in_range_def item_def linalg_norm_def sqrt_25)

lemma bind_eq_Inr: "bind m k = Inr y \<longleftrightarrow> (\<exists>x. m = Inr x \<and> k x = Inr y)"
  by (cases m) simp_all

lemma list3_iff: "length xs = 3 \<and> xs ! 0 = a \<and> xs ! 1 = b \<and> xs ! 2 = c \<longleftrightarrow> xs = [a, b, c]"
proof
  assume h: "length xs = 3 \<and> xs ! 0 = a \<and> xs ! 1 = b \<and> xs ! 2 = c"
  then obtain x y z where "xs = [x, y, z]"
    by (cases xs; cases "tl xs"; cases "tl (tl xs)") auto
  with h show "xs = [a, b, c]" by simp
qed simp

lemma list1_iff: "length xs = 1 \<and> xs ! 0 = a \<longleftrightarrow> xs = [a]"
  by (cases xs) auto

lemma check_structure_given:
  assumes "s_atomic_numbers s = Some a" "s_positions s = Some p" "s_cell s = Some c"
    "s_pbc s = Some b"
  shows "check_structure self idx (Some s) =
     (if \<not> (length (shape p) = 3 \<and> shape p ! 2 = 3)
      then Inl (AssertionError ''The shape of structure should be (n_frame, natom, 3)'')
      else if shape c \<noteq> [shape p ! 0, 3, 3]
      then Inl (AssertionError ''The shape of cell should be (n_frame, 3, 3)'')
      else if shape a \<noteq> [shape p ! 1]
      then Inl (AssertionError ''The shape of atomic_number should be (natom,)'')
      else if shape b \<noteq> [3]
      then Inl (AssertionError ''The shape of pbc should be (3)'')
      else if dtype a \<noteq> Int32
      then Inl (AssertionError ''The dtype of atomic_number should be int'')
      else if dtype c \<noteq> Float32
      then Inl (AssertionError ''The dtype of cell should be float'')
      else if dtype p \<noteq> Float32
      then Inl (AssertionError ''The dtype of pos should be float'')
      else if dtype b \<noteq> Bool8
      then Inl (AssertionError ''The dtype of pbc should be bool'')
      else Inr True)"
proof -
  have c: "(length (shape c) = 3 \<and> shape c ! 0 = shape p ! 0 \<and>
      shape c ! 1 = 3 \<and> shape c ! 2 = 3) = (shape c = [shape p ! 0, 3, 3])"
    by (rule list3_iff)
  have a: "(length (shape a) = 1 \<and> shape a ! 0 = shape p ! 1) = (shape a = [shape p ! 1])"
    by (rule list1_iff)
  have b: "(length (shape b) = 1 \<and> shape b ! 0 = 3) = (shape b = [3])"
    by (rule list1_iff)
  show ?thesis
    unfolding check_structure_def j_must_have_def Let_def assms bind_Inr option.case c a b
    by (simp only: if_not_P if_P not_not split: if_splits) 
qed

lemma check_structure_missing:
  assumes "s_atomic_numbers s = None \<or> s_positions s = None \<or> s_cell s = None \<or> s_pbc s = None"
  shows "\<exists>k. check_structure self idx (Some s) = Inl (MissingFieldError k)"
  using assms
  by (cases "s_atomic_numbers s"; cases "s_positions s"; cases "s_cell s"; cases "s_pbc s")
     (simp_all add: check_structure_def j_must_have_def)

lemma check_structure_iff: "(check_structure self idx (Some s) = Inr True) = valid_structure s"
proof (cases "s_atomic_numbers s = None \<or> s_positions s = None \<or> s_cell s = None \<or>
    s_pbc s = None")
  case True
  from check_structure_missing [OF this, of self idx] have "check_structure self idx (Some s) \<noteq> Inr True"
    by auto
  moreover from True have "\<not> valid_structure s"
    by (auto simp: valid_structure_def split: option.splits)
  ultimately show ?thesis by simp
next
  case False
  then obtain a p c b where f: "s_atomic_numbers s = Some a" "s_positions s = Some p"
    "s_cell s = Some c" "s_pbc s = Some b" by auto
  show ?thesis
    unfolding check_structure_given [OF f] using f
    by (auto simp: valid_structure_def)
qed

text \<open>
  Claim C7. \<open>check_structure\<close> accepts a structure record (answers \<open>True\<close>) if and
  only if the record satisfies the invariants of the spec, \<open>valid_structure\<close>; this
  holds for a record passed as argument and for the one the backend answers. When it
  does not accept it raises. A positions array of rank 2 is rejected with the shape
  message of the positions; atomic numbers stored as 64-bit integers in a record that
  is otherwise valid are rejected with the dtype message of the atomic numbers.
\<close>

theorem structure_validation:
  "(check_structure self idx (Some s) = Inr True) = valid_structure s \<and>
   (get_structure self idx = Inr s \<longrightarrow>
      (check_structure self idx None = Inr True) = valid_structure s) \<and>
   (check_structure self idx (Some s) \<noteq> Inr True \<longrightarrow>
      (\<exists>e. check_structure self idx (Some s) = Inl e)) \<and>
   (s_atomic_numbers s = Some a \<and> s_positions s = Some p \<and> s_cell s = Some c \<and>
    s_pbc s = Some b \<and> length (shape p) = 2 \<longrightarrow>
      check_structure self idx (Some s) =
        Inl (AssertionError ''The shape of structure should be (n_frame, natom, 3)'')) \<and>
   (s_atomic_numbers s = Some a \<and> dtype a = Int64 \<and>
    valid_structure (s\<lparr>s_atomic_numbers := Some (a\<lparr>dtype := Int32\<rparr>)\<rparr>) \<longrightarrow>
      check_structure self idx (Some s) =
        Inl (AssertionError ''The dtype of atomic_number should be int''))"
proof (intro conjI impI)
  show iff: "(check_structure self idx (Some s) = Inr True) = valid_structure s"
    by (rule check_structure_iff)
  show "(check_structure self idx None = Inr True) = valid_structure s"
    if "get_structure self idx = Inr s"
  proof -
    have "check_structure self idx None = check_structure self idx (Some s)"
      using that by (simp add: check_structure_def)
    then show ?thesis using iff by simp
  qed
  show "\<exists>e. check_structure self idx (Some s) = Inl e"
    if n: "check_structure self idx (Some s) \<noteq> Inr True"
  proof (cases "s_atomic_numbers s = None \<or> s_positions s = None \<or> s_cell s = None \<or>
      s_pbc s = None")
    case True
    from check_structure_missing [OF this, of self idx] show ?thesis by blast
  next
    case False
    then obtain a p c b where f: "s_atomic_numbers s = Some a" "s_positions s = Some p"
      "s_cell s = Some c" "s_pbc s = Some b" by auto
    show ?thesis
      using n unfolding check_structure_given [OF f] by (simp split: if_splits)
  qed
  show "check_structure self idx (Some s) =
      Inl (AssertionError ''The shape of structure should be (n_frame, natom, 3)'')"
    if "s_atomic_numbers s = Some a \<and> s_positions s = Some p \<and> s_cell s = Some c \<and>
      s_pbc s = Some b \<and> length (shape p) = 2"
    using that check_structure_given [of s a p c b self idx] by simp
  show "check_structure self idx (Some s) =
      Inl (AssertionError ''The dtype of atomic_number should be int'')"
    if h: "s_atomic_numbers s = Some a \<and> dtype a = Int64 \<and>
      valid_structure (s\<lparr>s_atomic_numbers := Some (a\<lparr>dtype := Int32\<rparr>)\<rparr>)"
  proof -
    from h obtain p c b where f: "s_positions s = Some p" "s_cell s = Some c"
      "s_pbc s = Some b"
      by (auto simp: valid_structure_def split: option.splits)
    from h have a: "s_atomic_numbers s = Some a" by simp
    from h f show ?thesis
      unfolding check_structure_given [OF a f]
      by (auto simp: valid_structure_def)
  qed
qed

theorem structure_validation_witness:
  "check_structure no_backend 0 (Some water_frames) = Inr True \<and>
   check_structure no_backend 0
       (Some (water_frames\<lparr>s_positions := Some (arr [1, 3] Float32 [0, 0, 0])\<rparr>)) =
     Inl (AssertionError ''The shape of structure should be (n_frame, natom, 3)'') \<and>
   check_structure no_backend 0
       (Some (water_frames\<lparr>s_atomic_numbers := Some (arr [1] Int64 [8])\<rparr>)) =
     Inl (AssertionError ''The dtype of atomic_number should be int'')"
  using structure_validation [of no_backend 0 water_frames]
    structure_validation [of no_backend 0
      "water_frames\<lparr>s_positions := Some (arr [1, 3] Float32 [0, 0, 0])\<rparr>"
      "arr [1] Int32 [8]" "arr [1, 3] Float32 [0, 0, 0]"
      "arr [2, 3, 3] Float32 [5, 0, 0, 0, 5, 0, 0, 0, 5, 6, 0, 0, 0, 6, 0, 0, 0, 6]"
      "arr [3] Bool8 [1, 1, 1]"]
    structure_validation [of no_backend 0
      "water_frames\<lparr>s_atomic_numbers := Some (arr [1] Int64 [8])\<rparr>" "arr [1] Int64 [8]"]
  by (simp add: water_frames_def arr_def valid_structure_def)

text \<open>
  Claim C9. For every format name outside hdf5, dat, ase and lmdb, \<open>write\<close> raises
  NotImplementedError with a message that contains the format, and the store and the
  files are as before the call. For every mode that the register does not hold,
  \<open>ParserRegister.__new__\<close> raises an exception whose message contains the mode; no
  constructor is called, and the world is as before.
\<close>

theorem unknown_format_or_backend_fails:
  "(format \<notin> {''hdf5'', ''dat'', ''ase'', ''lmdb''} \<longrightarrow>
      write write_dat self idx format eigenvalue hamiltonian overlap density_matrix
          band_index_min w =
        Raises (NotImplementedError (''Format: '' @ format @ '' is not implemented!'')) w) \<and>
   (register mode = None \<longrightarrow>
      ParserRegister_new register mode kwargs v =
        (Inl (Exception (''Descriptor mode: '' @ mode @ '' is not registered!'')), v))"
  by (simp add: write_def ParserRegister_new_def)

theorem unknown_format_or_backend_fails_witness:
  "write (\<lambda>idx fmt e h s d b w. Returns w) no_backend 0 ''xyz'' True False False False 0
       empty_world =
     Raises (NotImplementedError ''Format: xyz is not implemented!'') empty_world \<and>
   ParserRegister_new vasp_only ''abacus'' () empty_world =
     (Inl (Exception ''Descriptor mode: abacus is not registered!''), empty_world)"
  using unknown_format_or_backend_fails [of "''xyz''" "\<lambda>idx fmt e h s d b w. Returns w"
      no_backend 0 True False False False 0 empty_world vasp_only "''abacus''" "()" empty_world]
  by (simp add: vasp_only_def)

lemma put_fresh: "k \<notin> fst ` set env \<Longrightarrow> put k v env = env @ [(k, v)]"
  by (induction env) auto

lemma base256_digits:
  fixes n :: nat
  assumes "n < 4294967296"
  shows "n div 16777216 mod 256 * 16777216 + n div 65536 mod 256 * 65536 +
     n div 256 mod 256 * 256 + n mod 256 = n"
proof -
  define q1 where "q1 = n div 256"
  define q2 where "q2 = q1 div 256"
  define q3 where "q3 = q2 div 256"
  have d2: "n div 65536 = q2"
    using div_mult2_eq [of n 256 256] by (simp add: q1_def q2_def)
  have d3: "n div 16777216 = q3"
    using div_mult2_eq [of n 65536 256] d2 by (simp add: q3_def)
  have e1: "n = q1 * 256 + n mod 256" by (simp add: q1_def)
  have e2: "q1 = q2 * 256 + q1 mod 256" by (simp add: q2_def)
  have e3: "q2 = q3 * 256 + q2 mod 256" by (simp add: q3_def)
  have "n div 16777216 < 256" using assms by (simp add: less_mult_imp_div_less)
  then have m3: "q3 mod 256 = q3" unfolding d3 by simp
  define r1 where "r1 = n mod 256"
  define r2 where "r2 = q1 mod 256"
  define r3 where "r3 = q2 mod 256"
  have "q3 * 16777216 + r3 * 65536 + r2 * 256 + r1 = n"
    using e1 e2 e3 unfolding r1_def [symmetric] r2_def [symmetric] r3_def [symmetric]
    by linarith
  then show ?thesis
    unfolding d2 d3 m3 q1_def [symmetric] r1_def r2_def r3_def .
qed

lemma unat_byte: "unat (of_nat x :: byte) = x mod 256"
  by (simp add: unat_of_nat)

lemma big_endian4_numeral:
  "big_endian4 n = [of_nat (n div 16777216), of_nat (n div 65536), of_nat (n div 256), of_nat n]"
  by (simp add: big_endian4_def)

lemma from_bytes4_big_endian4: "n < 4294967296 \<Longrightarrow> from_bytes4 (big_endian4 n) = n"
  unfolding big_endian4_numeral from_bytes4.simps unat_byte
  by (rule base256_digits)

lemma big_endian4_inj:
  assumes "m < 4294967296" and "n < 4294967296" and "big_endian4 m = big_endian4 n"
  shows "m = n"
proof -
  have "from_bytes4 (big_endian4 m) = from_bytes4 (big_endian4 n)"
    using assms(3) by (rule arg_cong)
  then show ?thesis
    unfolding from_bytes4_big_endian4 [OF assms(1)] from_bytes4_big_endian4 [OF assms(2)] .
qed

lemma to_bytes4_small: "n < 4294967296 \<Longrightarrow> to_bytes4 n = Inr (big_endian4 n)"
  by (simp add: to_bytes4_def)

lemma sequential_key_fresh:
  assumes "map fst env = map big_endian4 [0 ..< length env]" and "length env < 4294967296"
  shows "big_endian4 (length env) \<notin> fst ` set env"
proof
  assume "big_endian4 (length env) \<in> fst ` set env"
  then have "big_endian4 (length env) \<in> set (map fst env)" by simp
  then have "big_endian4 (length env) \<in> big_endian4 ` {0 ..< length env}"
    unfolding assms(1) by simp
  then obtain k where k: "k < length env" "big_endian4 (length env) = big_endian4 k" by auto
  from big_endian4_inj [OF assms(2) _ k(2)] k(1) assms(2) show False by simp
qed

lemma write_frames_append:
  assumes "\<forall>nf\<in>set nfs. mk nf = Inr (dd nf)"
    and "length env + length nfs \<le> 4294967296"
    and "map fst env = map big_endian4 [0 ..< length env]"
  shows "write_frames mk nfs env =
     Returns (env @ map (\<lambda>(i, nf). (big_endian4 i, pickle_dumps (dd nf)))
                      (zip [length env ..< length env + length nfs] nfs))"
  using assms
proof (induction nfs arbitrary: env)
  case Nil
  then show ?case by simp
next
  case (Cons nf nfs)
  let ?key = "big_endian4 (length env)"
  let ?env = "env @ [(?key, pickle_dumps (dd nf))]"
  from Cons.prems(2) have small: "length env < 4294967296" by simp
  have put: "put ?key (pickle_dumps (dd nf)) env = ?env"
    by (rule put_fresh [OF sequential_key_fresh [OF Cons.prems(3) small]])
  have step: "write_frames mk (nf # nfs) env = write_frames mk nfs ?env"
    using Cons.prems(1) by (simp add: entries_def to_bytes4_small [OF small] put)
  have keys: "map fst ?env = map big_endian4 [0 ..< length ?env]"
    using Cons.prems(3) by simp
  have "write_frames mk nfs ?env =
     Returns (?env @ map (\<lambda>(i, nf). (big_endian4 i, pickle_dumps (dd nf)))
                      (zip [length ?env ..< length ?env + length nfs] nfs))"
    using Cons.prems(1,2) by (intro Cons.IH keys) simp_all
  also have "?env @ map (\<lambda>(i, nf). (big_endian4 i, pickle_dumps (dd nf)))
                      (zip [length ?env ..< length ?env + length nfs] nfs) =
     env @ map (\<lambda>(i, nf). (big_endian4 i, pickle_dumps (dd nf)))
                      (zip [length env ..< length env + length (nf # nfs)] (nf # nfs))"
  proof -
    have "[length env ..< length env + length (nf # nfs)] =
        length env # [length ?env ..< length ?env + length nfs]"
      using upt_conv_Cons [of "length env" "length env + Suc (length nfs)"]
      by (simp del: upt_Suc)
    then show ?thesis by (simp del: upt_Suc)
  qed
  finally show ?case using step by simp
qed

lemma write_frames_fresh:
  assumes "\<forall>nf<n. mk nf = Inr (dd nf)" and "n \<le> 4294967296"
  shows "write_frames mk [0 ..< n] [] =
     Returns (map (\<lambda>nf. (big_endian4 nf, pickle_dumps (dd nf))) [0 ..< n])"
proof -
  have "zip [0 ..< n] [0 ..< n] = map (\<lambda>x. (x, x)) [0 ..< n]"
    by (simp add: zip_same_conv_map)
  then show ?thesis
    using write_frames_append [of "[0 ..< n]" mk dd "[]"] assms
    by (simp add: comp_def)
qed

lemma frame_dict_ok:
  assumes "s_atomic_numbers s = Some a" and "s_cell s = Some c" and "s_positions s = Some p"
    and "s_pbc s = Some b"
    and "shape c = nc # rc" and "nf < nc" and "shape p = np # rp" and "nf < np"
    and "eigenvalue \<longrightarrow> (\<exists>ea k m r. e_eigenvalues es = Some ea \<and> e_kpoints es = Some k \<and>
           shape ea = m # r \<and> nf < m)"
    and "hamiltonian \<longrightarrow> (\<exists>l. ham = Some l \<and> nf < length l)"
    and "overlap \<longrightarrow> (\<exists>l. ovp = Some l \<and> nf < length l)"
    and "density_matrix \<longrightarrow> (\<exists>l. dm = Some l \<and> nf < length l)"
  shows "\<exists>d. frame_dict idx s eigenvalue es hamiltonian overlap density_matrix ham ovp dm nf
            = Inr d \<and> d_idx d = idx \<and> d_nf d = nf"
  using assms
  by (cases eigenvalue; cases hamiltonian; cases overlap; cases density_matrix)
     (auto simp: frame_dict_def getitem_def getitem0_def blocks_item_def list_item_def)

lemma valid_structure_fields:
  assumes "valid_structure s"
  obtains a p c b n0 n1 where "s_atomic_numbers s = Some a" "s_positions s = Some p"
    "s_cell s = Some c" "s_pbc s = Some b"
    "shape p = [n0, n1, 3]" "shape c = [n0, 3, 3]"
proof -
  from assms obtain a p c b where f: "s_atomic_numbers s = Some a" "s_positions s = Some p"
    "s_cell s = Some c" "s_pbc s = Some b"
    and v: "length (shape p) = 3" "shape p ! 2 = 3" "shape c = [shape p ! 0, 3, 3]"
    by (auto simp: valid_structure_def split: option.splits)
  from v(1,2) have "shape p = [shape p ! 0, shape p ! 1, 3]"
    using list3_iff [of "shape p" "shape p ! 0" "shape p ! 1" 3] by simp
  from f this v(3) show thesis by (rule that)
qed

text \<open>
  Claim C8. Let the backend answer a valid structure of \<open>n\<close> frames for \<open>idx\<close>, with
  \<open>n\<close> at most \<open>2^32\<close> (the numbers a 4-byte key can hold), and let it answer
  eigenvalues and blocks of at least \<open>n\<close> frames for the categories requested. Then
  \<open>write_lmdb\<close> on an empty store returns, and the store holds exactly \<open>n\<close> entries:
  their keys are the 4-byte big-endian encodings of \<open>0, 1, ..., n-1\<close>, all distinct;
  the key of entry \<open>nf\<close> encodes the entry count of the store made of the entries before
  it; and the value of entry \<open>nf\<close> deserializes to a mapping whose \<open>idx\<close> is the index
  passed to the writer and whose \<open>nf\<close> is the position of the frame.
\<close>

theorem write_lmdb_sequential_keys:
  assumes gs: "get_structure self idx = Inr s"
    and valid: "valid_structure s"
    and pos: "s_positions s = Some p" and n: "n = shape p ! 0"
    and bound: "n \<le> 2 ^ 32"
    and eig: "eigenvalue \<longrightarrow>
        (\<exists>es ea k m r. get_eigenvalue self idx band_index_min = Inr es \<and>
           e_eigenvalues es = Some ea \<and> e_kpoints es = Some k \<and> shape ea = m # r \<and> n \<le> m)"
    and blk: "hamiltonian \<or> overlap \<or> density_matrix \<longrightarrow>
        (\<exists>ham ovp dm. get_blocks self idx hamiltonian overlap density_matrix = Inr (ham, ovp, dm) \<and>
           (hamiltonian \<longrightarrow> (\<exists>l. ham = Some l \<and> n \<le> length l)) \<and>
           (overlap \<longrightarrow> (\<exists>l. ovp = Some l \<and> n \<le> length l)) \<and>
           (density_matrix \<longrightarrow> (\<exists>l. dm = Some l \<and> n \<le> length l)))"
  shows "\<exists>st. write_lmdb self idx eigenvalue hamiltonian overlap density_matrix
                 band_index_min [] = Returns st \<and>
     length st = n \<and>
     map fst st = map big_endian4 [0 ..< n] \<and>
     distinct (map fst st) \<and>
     (\<forall>nf<n. fst (st ! nf) = big_endian4 (entries (take nf st)) \<and>
        d_idx (pickle_loads (snd (st ! nf))) = idx \<and>
        d_nf (pickle_loads (snd (st ! nf))) = nf)"
proof -
  from valid obtain a p' c b n0 n1 where f': "s_atomic_numbers s = Some a"
    "s_positions s = Some p'" "s_cell s = Some c" "s_pbc s = Some b"
    and sh': "shape p' = [n0, n1, 3]" "shape c = [n0, 3, 3]"
    by (rule valid_structure_fields)
  from f'(2) pos have pp: "p' = p" by simp
  from sh'(1) n have nn: "n0 = n" unfolding pp by simp
  note f = f' [unfolded pp] and sh = sh' [unfolded pp nn]
  define es where "es = (if eigenvalue then projr (get_eigenvalue self idx band_index_min)
     else \<lparr>e_eigenvalues = None, e_kpoints = None\<rparr>)"
  have es: "(if eigenvalue then get_eigenvalue self idx band_index_min
            else Inr \<lparr>e_eigenvalues = None, e_kpoints = None\<rparr>) = Inr es"
    using eig by (auto simp: es_def)
  have es_ok: "eigenvalue \<longrightarrow> (\<exists>ea k m r. e_eigenvalues es = Some ea \<and>
      e_kpoints es = Some k \<and> shape ea = m # r \<and> n \<le> m)"
    using eig by (auto simp: es_def)
  obtain ham ovp dm where bl: "(if hamiltonian \<or> overlap \<or> density_matrix
            then get_blocks self idx hamiltonian overlap density_matrix
            else Inr (None, None, None)) = Inr (ham, ovp, dm)"
    and bl_ok: "hamiltonian \<longrightarrow> (\<exists>l. ham = Some l \<and> n \<le> length l)"
      "overlap \<longrightarrow> (\<exists>l. ovp = Some l \<and> n \<le> length l)"
      "density_matrix \<longrightarrow> (\<exists>l. dm = Some l \<and> n \<le> length l)"
  proof (cases "hamiltonian \<or> overlap \<or> density_matrix")
    case True
    with blk show thesis by (auto intro: that)
  next
    case False
    then show thesis by (intro that [of None None None]) simp_all
  qed
  let ?mk = "frame_dict idx s eigenvalue es hamiltonian overlap density_matrix ham ovp dm"
  have "\<forall>nf\<in>{..<n}. \<exists>d. ?mk nf = Inr d \<and> d_idx d = idx \<and> d_nf d = nf"
  proof
    fix nf assume "nf \<in> {..<n}"
    then have nf: "nf < n" by simp
    show "\<exists>d. ?mk nf = Inr d \<and> d_idx d = idx \<and> d_nf d = nf"
      using es_ok bl_ok nf
      by (intro frame_dict_ok [OF f(1) f(3) f(2) f(4) sh(2) nf sh(1) nf]) auto
  qed
  then obtain dd where dd: "\<forall>nf\<in>{..<n}. ?mk nf = Inr (dd nf) \<and> d_idx (dd nf) = idx \<and>
      d_nf (dd nf) = nf"
    by (rule bchoice [THEN exE])
  then have mk: "\<forall>nf<n. ?mk nf = Inr (dd nf)" by simp
  let ?st = "map (\<lambda>nf. (big_endian4 nf, pickle_dumps (dd nf))) [0 ..< n]"
  from bound have bound': "n \<le> 4294967296" by simp
  have nfr: "bind (getitem ''POSITIONS_KEY'' (s_positions s)) shape0 = Inr n"
    using f(2) sh(1) by (simp add: getitem_def shape0_def)
  have run: "write_lmdb self idx eigenvalue hamiltonian overlap density_matrix
      band_index_min [] = Returns ?st"
    unfolding write_lmdb_def gs es bl
    using write_frames_fresh [OF mk bound'] by (simp add: nfr)
  have keys: "map fst ?st = map big_endian4 [0 ..< n]" by (simp add: comp_def)
  have "inj_on big_endian4 {0 ..< n}"
    using bound' by (intro inj_onI big_endian4_inj) auto
  then have dist: "distinct (map fst ?st)"
    unfolding keys by (simp add: distinct_map)
  have each: "\<forall>nf<n. fst (?st ! nf) = big_endian4 (entries (take nf ?st)) \<and>
        d_idx (pickle_loads (snd (?st ! nf))) = idx \<and>
        d_nf (pickle_loads (snd (?st ! nf))) = nf"
    using dd by (simp add: entries_def pickle_dumps_def)
  from run keys dist each show ?thesis
    by (intro exI [of _ ?st] conjI) simp_all
qed

theorem write_lmdb_sequential_keys_witness:
  "\<exists>st. write_lmdb water_backend 7 True True False False 0 [] = Returns st \<and>
     length st = 2 \<and>
     map fst st = [[0, 0, 0, 0], [0, 0, 0, 1]] \<and>
     (\<forall>nf<2. d_idx (pickle_loads (snd (st ! nf))) = 7 \<and>
        d_nf (pickle_loads (snd (st ! nf))) = nf)"
proof -
  have "[0 ..< 2] = [0, 1::nat]"
    by (simp add: upt_rec [of 0] upt_rec [of 1] numeral_2_eq_2)
  then have k: "map big_endian4 [0 ..< 2] = [[0, 0, 0, 0], [0, 0, 0, 1]]"
    by (simp add: big_endian4_numeral)
  have "\<exists>st. write_lmdb water_backend 7 True True False False 0 [] = Returns st \<and>
     length st = 2 \<and>
     map fst st = map big_endian4 [0 ..< 2] \<and>
     distinct (map fst st) \<and>
     (\<forall>nf<2. fst (st ! nf) = big_endian4 (entries (take nf st)) \<and>
        d_idx (pickle_loads (snd (st ! nf))) = 7 \<and>
        d_nf (pickle_loads (snd (st ! nf))) = nf)"
    by (rule write_lmdb_sequential_keys [of water_backend 7 water_frames
          "arr [2, 1, 3] Float32 [0, 0, 0, 1, 1, 1]" 2 True 0 True False False])
       (simp_all add: water_backend_def water_frames_def arr_def valid_structure_def)
  then obtain st where st:
    "write_lmdb water_backend 7 True True False False 0 [] = Returns st"
    "length st = 2" "map fst st = [[0, 0, 0, 0], [0, 0, 0, 1]]"
    "\<forall>nf<2. fst (st ! nf) = big_endian4 (entries (take nf st)) \<and>
        d_idx (pickle_loads (snd (st ! nf))) = 7 \<and>
        d_nf (pickle_loads (snd (st ! nf))) = nf"
    unfolding k by (elim exE conjE)
  from st(4) have "\<forall>nf<2. d_idx (pickle_loads (snd (st ! nf))) = 7 \<and>
        d_nf (pickle_loads (snd (st ! nf))) = nf"
    by simp
  with st(1-3) show ?thesis by (intro exI [of _ st] conjI)
qed

end
